theory Spec2Isabelle
  imports Main "HOL-Library.Word"
begin

text \<open>
  A model of the Happy AI website builder service: the chat endpoint with its artifact
  generator and its fallback template, the deploy endpoint with the source publisher and the
  deployment trigger (in the variant of the service that has the two deployment
  strategies), and the session store behind the save and history endpoints; and the
  generate-website endpoint of the earlier variant, the website factory. Everything outside
  the process (the clock, the completion endpoint, the source host, the deployment
  platform) is a parameter of the handlers.
\<close>

section \<open>JavaScript values\<close>

text \<open>
  A JavaScript string is a sequence of UTF-16 code units; \<open>length\<close>, \<open>substring\<close> and
  \<open>trim\<close> count code units. \<open>lit\<close> embeds an ASCII literal of the source; the few
  characters of the source outside ASCII are written as their code units.
\<close>

type_synonym jschar = "16 word"
type_synonym jsstring = "jschar list"

definition lit :: "string \<Rightarrow> jsstring" where
  "lit s = map of_char s"

text \<open>The decimal rendering of a non-negative integer inside a template literal.\<close>

fun digits :: "nat \<Rightarrow> jsstring" where
  "digits n =
     (if n < 10 then [of_nat (48 + n)]
      else digits (n div 10) @ [of_nat (48 + n mod 10)])"

declare digits.simps [simp del]

text \<open>
  \<open>String.prototype.trim\<close> removes the WhiteSpace and LineTerminator code points of
  ECMAScript from both ends.
\<close>

definition isWhiteSpace :: "jschar \<Rightarrow> bool" where
  "isWhiteSpace c \<longleftrightarrow>
     c \<in> set [0x0009, 0x000A, 0x000B, 0x000C, 0x000D, 0x0020, 0x00A0, 0x1680,
               0x2028, 0x2029, 0x202F, 0x205F, 0x3000, 0xFEFF]
     \<or> (0x2000 \<le> c \<and> c \<le> 0x200A)"

definition trim :: "jsstring \<Rightarrow> jsstring" where
  "trim s = rev (dropWhile isWhiteSpace (rev (dropWhile isWhiteSpace s)))"

text \<open>
  The leaves of a request body or of a parsed model reply: \<open>undefined\<close> (an absent
  property), \<open>null\<close>, booleans, numbers and strings. A number is held as its string
  conversion, the text JavaScript writes for it (\<open>12345\<close>, \<open>0.5\<close>, \<open>1e+21\<close>): the
  handlers only convert numbers to strings, test them for truth and use them as keys, and a
  parsed number is zero (of either sign) exactly when its text is \<open>0\<close>, and equal to
  another as a key exactly when the texts are equal. A value is a leaf or an object with
  leaf properties; arrays and nested objects are not modelled.
\<close>

datatype prim = Undefined | Null | Bool bool | Num jsstring | Str jsstring

datatype jsval = Prim prim | Obj "(jsstring \<times> prim) list"

text \<open>
  A thrown value: a \<open>TypeError\<close> raised by the engine (its message is the engine's, and
  is never empty), or an error with a message and, for a rejected HTTP request, a status.
\<close>

datatype js_error = TypeError | Error jsstring "nat option"

datatype msg_text = EngineText | Text jsstring

fun err_message :: "js_error \<Rightarrow> msg_text" where
  "err_message TypeError = EngineText"
| "err_message (Error m s) = Text m"

fun err_status :: "js_error \<Rightarrow> nat option" where
  "err_status TypeError = None"
| "err_status (Error m s) = s"

fun truthy :: "prim \<Rightarrow> bool" where
  "truthy Undefined = False"
| "truthy Null = False"
| "truthy (Bool b) = b"
| "truthy (Num n) = (n \<noteq> lit ''0'')"
| "truthy (Str s) = (s \<noteq> [])"

text \<open>\<open>a || b\<close> on leaves.\<close>

definition or_else :: "prim \<Rightarrow> prim \<Rightarrow> prim" where
  "or_else a b = (if truthy a then a else b)"

text \<open>
  Reading a property \<open>v.k\<close>, for the property names the handlers read (\<open>html\<close>,
  \<open>css\<close>, \<open>js\<close>, \<open>name\<close>, \<open>message\<close>), none of which a primitive has: it throws on
  \<open>undefined\<close> and \<open>null\<close>, and is \<open>undefined\<close> where the property is absent.
\<close>

fun get :: "jsval \<Rightarrow> jsstring \<Rightarrow> js_error + prim" where
  "get (Prim Undefined) k = Inl TypeError"
| "get (Prim Null) k = Inl TypeError"
| "get (Prim p) k = Inr Undefined"
| "get (Obj kvs) k = Inr (case map_of kvs k of None \<Rightarrow> Undefined | Some v \<Rightarrow> v)"

section \<open>Configuration\<close>

text \<open>Each key is \<open>process.env.X || ''\<close>: the empty string when the variable is not set.\<close>

record env =
  DEEPSEEK_API_KEY :: jsstring
  GITHUB_TOKEN :: jsstring
  VERCEL_TOKEN :: jsstring
  VERCEL_PROJECT_ID :: jsstring

section \<open>The world outside the process\<close>

text \<open>
  The places where the service reads the clock (\<open>Date.now()\<close> or \<open>new Date()\<close>); none
  is inside a loop, so each is read at most once while one request is handled. The one
  exception is the footer year of the fallback template, read by every call of
  \<open>generateFallbackTemplate\<close>; no request keeps the markup of more than one call.
\<close>

datatype site =
    TemplateYear
  | MockRepoUrl | MockRepoName | MockVercelUrl | FallbackUrl
  | DeploymentName | DirectDeploymentName | DeployMockUrl
  | RepoName | ReadmeDate
  | SessionCreatedAt | ProjectId | ProjectTimestamp
  | WebsiteRepoName | WebsiteCreated

text \<open>
  The variable parts of the completion request: the user's message and the excerpts of the
  current code (the fixed instruction text around them is not modelled).
\<close>

record ai_request =
  user_wants :: jsstring
  current_html :: jsstring
  current_css :: jsstring
  current_js :: jsstring

text \<open>
  What the single call to the completion endpoint comes to: \<open>axios.post\<close> rejects (network
  failure, the 30 second timeout, a status outside 2xx); or it resolves and reading
  \<open>response.data.choices[0].message.content\<close> or \<open>JSON.parse\<close> of it throws; or
  \<open>JSON.parse\<close> returns a value.
\<close>

datatype ai_outcome = Rejected js_error | Unparsable | Parsed jsval

text \<open>
  The base64 text of \<open>Buffer.from(s).toString('base64')\<close> is kept symbolic: the payload
  names the string it encodes.
\<close>

datatype payload = Base64 jsstring

record repo_request =
  repo_name :: jsstring
  repo_description :: jsstring
  repo_private :: bool
  repo_auto_init :: bool

record repo_data =
  html_url :: prim
  clone_url :: prim
  owner_login :: prim
  data_name :: prim
  full_name :: prim

record file_request =
  file_owner :: prim
  file_repo :: prim
  file_path :: jsstring
  file_message :: jsstring
  file_content :: payload

datatype deployment_request =
    GitDeployment jsstring jsstring jsstring
  | FileDeployment jsstring "(jsstring \<times> prim) list"
  | RepoDeployment prim jsstring

text \<open>
  The collaborators, as the outcome of each call for each request: the clock, its ISO
  rendering and its year in the local time zone, the completion endpoint (for the chat service and for the website factory),
  the three calls of the source host, and the deployment platform. A call that throws
  (a rejected request, or a response without the fields read from it) is \<open>Inl\<close>;
  \<open>vercel_deployments\<close> yields the text of \<open>data.url\<close>.
\<close>

record world =
  now :: "site \<Rightarrow> nat"
  toISOString :: "nat \<Rightarrow> jsstring"
  getFullYear :: "nat \<Rightarrow> nat"
  deepseek :: "ai_request \<Rightarrow> ai_outcome"
  deepseek_website :: "jsstring \<Rightarrow> ai_outcome"
  getAuthenticated :: "js_error + jsstring"
  createForAuthenticatedUser :: "repo_request \<Rightarrow> js_error + repo_data"
  createOrUpdateFileContents :: "file_request \<Rightarrow> js_error + unit"
  vercel_deployments :: "deployment_request \<Rightarrow> js_error + jsstring"

text \<open>The outbound calls a handler attempts, in order.\<close>

datatype outbound =
    Completion jsstring
  | GetUser
  | CreateRepo repo_request
  | PutFile file_request
  | Deploy deployment_request

definition nl :: jsstring where
  "nl = [0x000A]"

text \<open>String conversion of a leaf inside a template literal.\<close>

fun toString :: "prim \<Rightarrow> jsstring" where
  "toString Undefined = lit ''undefined''"
| "toString Null = lit ''null''"
| "toString (Bool b) = (if b then lit ''true'' else lit ''false'')"
| "toString (Num n) = n"
| "toString (Str s) = s"

text \<open>\<open>Buffer.from(v).toString('base64')\<close>: \<open>Buffer.from\<close> throws on a leaf that is not a string.\<close>

fun base64 :: "prim \<Rightarrow> js_error + payload" where
  "base64 (Str s) = Inr (Base64 s)"
| "base64 v = Inl TypeError"

section \<open>The artifact generator\<close>

record code =
  html :: prim
  css :: prim
  js :: prim

record ai_response =
  ai_message :: prim
  ai_code :: code

text \<open>
  The fallback template. A template literal is its chunks of text and the values placed
  between them: the markup has four chunks, around the message (twice) and the year of the
  footer; styles and script are fixed texts. The constant \<open>templateId\<close> of the source is
  read from the clock and never used. In the script, the source leaves the two backticks
  and the \<open>${\<close> of the line that compares \<open>href\<close> with the section id unescaped; the
  text is taken in the escaped form that every other such line of the template has.
\<close>

definition template_html_1 :: jsstring where
  \<open>template_html_1 =
     lit ''<!DOCTYPE html>'' @ nl
     @ lit ''<html lang="en">'' @ nl
     @ lit ''<head>'' @ nl
     @ lit ''    <meta charset="UTF-8">'' @ nl
     @ lit ''    <meta name="viewport" content="width=device-width, initial-scale=1.0">'' @ nl
     @ lit ''    <title>''\<close>

definition template_html_2 :: jsstring where
  \<open>template_html_2 =
     lit '' | Happy AI Builder</title>'' @ nl
     @ lit ''    <link rel="stylesheet" href="style.css">'' @ nl
     @ lit ''    <link rel="stylesheet" href="https://cdnjs.cloudflare.com/ajax/libs/font-awesome/6.4.0/css/all.min.css">''
     @ nl
     @ lit ''</head>'' @ nl
     @ lit ''<body>'' @ nl
     @ lit ''    <!-- Navigation -->'' @ nl
     @ lit ''    <nav class="navbar">'' @ nl
     @ lit ''        <div class="container">'' @ nl
     @ lit ''            <div class="logo">'' @ nl
     @ lit ''                <i class="fas fa-robot"></i>'' @ nl
     @ lit ''                <span>Happy AI</span>'' @ nl
     @ lit ''            </div>'' @ nl
     @ lit ''            <div class="nav-links">'' @ nl
     @ lit ''                <a href="#home">Home</a>'' @ nl
     @ lit ''                <a href="#about">About</a>'' @ nl
     @ lit ''                <a href="#features">Features</a>'' @ nl
     @ lit ''                <a href="#contact">Contact</a>'' @ nl
     @ lit ''            </div>'' @ nl
     @ lit ''            <button class="menu-toggle">'' @ nl
     @ lit ''                <i class="fas fa-bars"></i>'' @ nl
     @ lit ''            </button>'' @ nl
     @ lit ''        </div>'' @ nl
     @ lit ''    </nav>'' @ nl
     @ nl
     @ lit ''    <!-- Hero Section -->'' @ nl
     @ lit ''    <section class="hero" id="home">'' @ nl
     @ lit ''        <div class="container">'' @ nl
     @ lit ''            <div class="hero-content">'' @ nl
     @ lit ''                <h1 class="glow-text">''\<close>

definition template_html_3 :: jsstring where
  \<open>template_html_3 =
     lit ''</h1>'' @ nl
     @ lit ''                <p class="subtitle">Created with '' @ [0x2764, 0xFE0F]
     @ lit '' using Happy AI Website Builder</p>'' @ nl
     @ lit ''                <div class="cta-buttons">'' @ nl
     @ lit ''                    <button class="btn primary-btn" onclick="showAlert('Welcome!')">''
     @ nl
     @ lit ''                        <i class="fas fa-rocket"></i> Get Started'' @ nl
     @ lit ''                    </button>'' @ nl
     @ lit ''                    <button class="btn secondary-btn" onclick="showAlert('Learn More clicked!')">''
     @ nl
     @ lit ''                        <i class="fas fa-info-circle"></i> Learn More'' @ nl
     @ lit ''                    </button>'' @ nl
     @ lit ''                </div>'' @ nl
     @ lit ''            </div>'' @ nl
     @ lit ''            <div class="hero-image">'' @ nl
     @ lit ''                <div class="glow-circle"></div>'' @ nl
     @ lit ''            </div>'' @ nl
     @ lit ''        </div>'' @ nl
     @ lit ''    </section>'' @ nl
     @ nl
     @ lit ''    <!-- Features Section -->'' @ nl
     @ lit ''    <section class="features" id="features">'' @ nl
     @ lit ''        <div class="container">'' @ nl
     @ lit ''            <h2 class="section-title">'' @ [0x2728]
     @ lit '' Amazing Features</h2>'' @ nl
     @ lit ''            <div class="features-grid">'' @ nl
     @ lit ''                <div class="feature-card">'' @ nl
     @ lit ''                    <div class="feature-icon">'' @ nl
     @ lit ''                        <i class="fas fa-bolt"></i>'' @ nl
     @ lit ''                    </div>'' @ nl
     @ lit ''                    <h3>Fast & Efficient</h3>'' @ nl
     @ lit ''                    <p>Lightning fast performance with optimized code</p>'' @ nl
     @ lit ''                </div>'' @ nl
     @ lit ''                <div class="feature-card">'' @ nl
     @ lit ''                    <div class="feature-icon">'' @ nl
     @ lit ''                        <i class="fas fa-mobile-alt"></i>'' @ nl
     @ lit ''                    </div>'' @ nl
     @ lit ''                    <h3>Mobile First</h3>'' @ nl
     @ lit ''                    <p>Perfectly responsive on all devices</p>'' @ nl
     @ lit ''                </div>'' @ nl
     @ lit ''                <div class="feature-card">'' @ nl
     @ lit ''                    <div class="feature-icon">'' @ nl
     @ lit ''                        <i class="fas fa-palette"></i>'' @ nl
     @ lit ''                    </div>'' @ nl
     @ lit ''                    <h3>Beautiful Design</h3>'' @ nl
     @ lit ''                    <p>Modern UI with glowing effects</p>'' @ nl
     @ lit ''                </div>'' @ nl
     @ lit ''            </div>'' @ nl
     @ lit ''        </div>'' @ nl
     @ lit ''    </section>'' @ nl
     @ nl
     @ lit ''    <!-- Footer -->'' @ nl
     @ lit ''    <footer class="footer">'' @ nl
     @ lit ''        <div class="container">'' @ nl
     @ lit ''            <p>'' @ [0x00A9] @ lit '' ''\<close>

definition template_html_4 :: jsstring where
  \<open>template_html_4 =
     lit '' Happy AI Builder. All rights reserved.</p>'' @ nl
     @ lit ''            <div class="social-links">'' @ nl
     @ lit ''                <a href="#"><i class="fab fa-github"></i></a>'' @ nl
     @ lit ''                <a href="#"><i class="fab fa-twitter"></i></a>'' @ nl
     @ lit ''                <a href="#"><i class="fab fa-linkedin"></i></a>'' @ nl
     @ lit ''            </div>'' @ nl
     @ lit ''        </div>'' @ nl
     @ lit ''    </footer>'' @ nl
     @ nl
     @ lit ''    <script src="script.js"></script>'' @ nl
     @ lit ''</body>'' @ nl
     @ lit ''</html>''\<close>

definition template_css :: jsstring where
  \<open>template_css =
     lit ''/* Happy AI Website Builder - Modern Dark Theme */'' @ nl
     @ lit '':root {'' @ nl
     @ lit ''    --primary-color: #00ffaa;'' @ nl
     @ lit ''    --secondary-color: #8a2be2;'' @ nl
     @ lit ''    --accent-color: #ff0080;'' @ nl
     @ lit ''    --dark-bg: #0a0a1a;'' @ nl
     @ lit ''    --card-bg: rgba(20, 20, 40, 0.9);'' @ nl
     @ lit ''    --text-primary: #ffffff;'' @ nl
     @ lit ''    --text-secondary: #a0a0ff;'' @ nl
     @ lit ''    --border-glow: rgba(0, 255, 170, 0.3);'' @ nl
     @ lit ''    --shadow-glow: 0 0 20px rgba(0, 255, 170, 0.3);'' @ nl
     @ lit ''    --transition: all 0.3s ease;'' @ nl
     @ lit ''}'' @ nl
     @ nl
     @ lit ''* {'' @ nl
     @ lit ''    margin: 0;'' @ nl
     @ lit ''    padding: 0;'' @ nl
     @ lit ''    box-sizing: border-box;'' @ nl
     @ lit ''}'' @ nl
     @ nl
     @ lit ''body {'' @ nl
     @ lit ''    font-family: 'Segoe UI', 'SF Pro Display', system-ui, sans-serif;'' @ nl
     @ lit ''    background: var(--dark-bg);'' @ nl
     @ lit ''    color: var(--text-primary);'' @ nl
     @ lit ''    line-height: 1.6;'' @ nl
     @ lit ''    overflow-x: hidden;'' @ nl
     @ lit ''}'' @ nl
     @ nl
     @ lit ''.container {'' @ nl
     @ lit ''    max-width: 1200px;'' @ nl
     @ lit ''    margin: 0 auto;'' @ nl
     @ lit ''    padding: 0 20px;'' @ nl
     @ lit ''}'' @ nl
     @ nl
     @ lit ''/* Navigation */'' @ nl
     @ lit ''.navbar {'' @ nl
     @ lit ''    background: var(--card-bg);'' @ nl
     @ lit ''    backdrop-filter: blur(10px);'' @ nl
     @ lit ''    border-bottom: 1px solid var(--border-glow);'' @ nl
     @ lit ''    position: fixed;'' @ nl
     @ lit ''    top: 0;'' @ nl
     @ lit ''    left: 0;'' @ nl
     @ lit ''    right: 0;'' @ nl
     @ lit ''    z-index: 1000;'' @ nl
     @ lit ''    padding: 1rem 0;'' @ nl
     @ lit ''}'' @ nl
     @ nl
     @ lit ''.navbar .container {'' @ nl
     @ lit ''    display: flex;'' @ nl
     @ lit ''    justify-content: space-between;'' @ nl
     @ lit ''    align-items: center;'' @ nl
     @ lit ''}'' @ nl
     @ nl
     @ lit ''.logo {'' @ nl
     @ lit ''    display: flex;'' @ nl
     @ lit ''    align-items: center;'' @ nl
     @ lit ''    gap: 10px;'' @ nl
     @ lit ''    font-size: 1.5rem;'' @ nl
     @ lit ''    font-weight: 700;'' @ nl
     @ lit ''    background: linear-gradient(90deg, var(--primary-color), var(--secondary-color));''
     @ nl
     @ lit ''    -webkit-background-clip: text;'' @ nl
     @ lit ''    -webkit-text-fill-color: transparent;'' @ nl
     @ lit ''}'' @ nl
     @ nl
     @ lit ''.logo i {'' @ nl
     @ lit ''    font-size: 1.8rem;'' @ nl
     @ lit ''}'' @ nl
     @ nl
     @ lit ''.nav-links {'' @ nl
     @ lit ''    display: flex;'' @ nl
     @ lit ''    gap: 2rem;'' @ nl
     @ lit ''}'' @ nl
     @ nl
     @ lit ''.nav-links a {'' @ nl
     @ lit ''    color: var(--text-secondary);'' @ nl
     @ lit ''    text-decoration: none;'' @ nl
     @ lit ''    font-weight: 500;'' @ nl
     @ lit ''    padding: 0.5rem 1rem;'' @ nl
     @ lit ''    border-radius: 8px;'' @ nl
     @ lit ''    transition: var(--transition);'' @ nl
     @ lit ''}'' @ nl
     @ nl
     @ lit ''.nav-links a:hover {'' @ nl
     @ lit ''    color: var(--primary-color);'' @ nl
     @ lit ''    background: rgba(0, 255, 170, 0.1);'' @ nl
     @ lit ''}'' @ nl
     @ nl
     @ lit ''.menu-toggle {'' @ nl
     @ lit ''    display: none;'' @ nl
     @ lit ''    background: none;'' @ nl
     @ lit ''    border: none;'' @ nl
     @ lit ''    color: var(--primary-color);'' @ nl
     @ lit ''    font-size: 1.5rem;'' @ nl
     @ lit ''    cursor: pointer;'' @ nl
     @ lit ''}'' @ nl
     @ nl
     @ lit ''/* Hero Section */'' @ nl
     @ lit ''.hero {'' @ nl
     @ lit ''    padding: 120px 0 80px;'' @ nl
     @ lit ''    position: relative;'' @ nl
     @ lit ''    overflow: hidden;'' @ nl
     @ lit ''}'' @ nl
     @ nl
     @ lit ''.hero::before {'' @ nl
     @ lit ''    content: '' @ [0x0027, 0x0027] @ lit '';'' @ nl
     @ lit ''    position: absolute;'' @ nl
     @ lit ''    top: 0;'' @ nl
     @ lit ''    left: 0;'' @ nl
     @ lit ''    right: 0;'' @ nl
     @ lit ''    bottom: 0;'' @ nl
     @ lit ''    background: radial-gradient(circle at 30% 50%, rgba(0, 255, 170, 0.1) 0%, transparent 50%);''
     @ nl
     @ lit ''    z-index: -1;'' @ nl
     @ lit ''}'' @ nl
     @ nl
     @ lit ''.hero .container {'' @ nl
     @ lit ''    display: flex;'' @ nl
     @ lit ''    align-items: center;'' @ nl
     @ lit ''    justify-content: space-between;'' @ nl
     @ lit ''    gap: 3rem;'' @ nl
     @ lit ''}'' @ nl
     @ nl
     @ lit ''.hero-content {'' @ nl
     @ lit ''    flex: 1;'' @ nl
     @ lit ''}'' @ nl
     @ nl
     @ lit ''.glow-text {'' @ nl
     @ lit ''    font-size: 3.5rem;'' @ nl
     @ lit ''    margin-bottom: 1.5rem;'' @ nl
     @ lit ''    background: linear-gradient(90deg, var(--primary-color), var(--accent-color));''
     @ nl
     @ lit ''    -webkit-background-clip: text;'' @ nl
     @ lit ''    -webkit-text-fill-color: transparent;'' @ nl
     @ lit ''    text-shadow: 0 0 30px rgba(0, 255, 170, 0.3);'' @ nl
     @ lit ''    animation: glow 2s infinite alternate;'' @ nl
     @ lit ''}'' @ nl
     @ nl
     @ lit ''@keyframes glow {'' @ nl
     @ lit ''    from {'' @ nl
     @ lit ''        text-shadow: 0 0 20px rgba(0, 255, 170, 0.3);'' @ nl
     @ lit ''    }'' @ nl
     @ lit ''    to {'' @ nl
     @ lit ''        text-shadow: 0 0 30px rgba(0, 255, 170, 0.6);'' @ nl
     @ lit ''    }'' @ nl
     @ lit ''}'' @ nl
     @ nl
     @ lit ''.subtitle {'' @ nl
     @ lit ''    font-size: 1.2rem;'' @ nl
     @ lit ''    color: var(--text-secondary);'' @ nl
     @ lit ''    margin-bottom: 2rem;'' @ nl
     @ lit ''    max-width: 600px;'' @ nl
     @ lit ''}'' @ nl
     @ nl
     @ lit ''.cta-buttons {'' @ nl
     @ lit ''    display: flex;'' @ nl
     @ lit ''    gap: 1rem;'' @ nl
     @ lit ''    flex-wrap: wrap;'' @ nl
     @ lit ''}'' @ nl
     @ nl
     @ lit ''.btn {'' @ nl
     @ lit ''    padding: 1rem 2rem;'' @ nl
     @ lit ''    border: none;'' @ nl
     @ lit ''    border-radius: 12px;'' @ nl
     @ lit ''    font-size: 1rem;'' @ nl
     @ lit ''    font-weight: 600;'' @ nl
     @ lit ''    cursor: pointer;'' @ nl
     @ lit ''    display: flex;'' @ nl
     @ lit ''    align-items: center;'' @ nl
     @ lit ''    gap: 10px;'' @ nl
     @ lit ''    transition: var(--transition);'' @ nl
     @ lit ''}'' @ nl
     @ nl
     @ lit ''.primary-btn {'' @ nl
     @ lit ''    background: linear-gradient(135deg, var(--primary-color), var(--secondary-color));''
     @ nl
     @ lit ''    color: var(--dark-bg);'' @ nl
     @ lit ''}'' @ nl
     @ nl
     @ lit ''.primary-btn:hover {'' @ nl
     @ lit ''    transform: translateY(-3px);'' @ nl
     @ lit ''    box-shadow: var(--shadow-glow);'' @ nl
     @ lit ''}'' @ nl
     @ nl
     @ lit ''.secondary-btn {'' @ nl
     @ lit ''    background: rgba(0, 255, 170, 0.1);'' @ nl
     @ lit ''    color: var(--primary-color);'' @ nl
     @ lit ''    border: 2px solid var(--border-glow);'' @ nl
     @ lit ''}'' @ nl
     @ nl
     @ lit ''.secondary-btn:hover {'' @ nl
     @ lit ''    background: rgba(0, 255, 170, 0.2);'' @ nl
     @ lit ''    transform: translateY(-3px);'' @ nl
     @ lit ''}'' @ nl
     @ nl
     @ lit ''.hero-image {'' @ nl
     @ lit ''    flex: 1;'' @ nl
     @ lit ''    display: flex;'' @ nl
     @ lit ''    justify-content: center;'' @ nl
     @ lit ''    align-items: center;'' @ nl
     @ lit ''}'' @ nl
     @ nl
     @ lit ''.glow-circle {'' @ nl
     @ lit ''    width: 300px;'' @ nl
     @ lit ''    height: 300px;'' @ nl
     @ lit ''    background: radial-gradient(circle, var(--primary-color) 0%, transparent 70%);''
     @ nl
     @ lit ''    border-radius: 50%;'' @ nl
     @ lit ''    filter: blur(40px);'' @ nl
     @ lit ''    opacity: 0.3;'' @ nl
     @ lit ''    animation: float 6s infinite ease-in-out;'' @ nl
     @ lit ''}'' @ nl
     @ nl
     @ lit ''@keyframes float {'' @ nl
     @ lit ''    0%, 100% {'' @ nl
     @ lit ''        transform: translateY(0) scale(1);'' @ nl
     @ lit ''    }'' @ nl
     @ lit ''    50% {'' @ nl
     @ lit ''        transform: translateY(-20px) scale(1.1);'' @ nl
     @ lit ''    }'' @ nl
     @ lit ''}'' @ nl
     @ nl
     @ lit ''/* Features Section */'' @ nl
     @ lit ''.features {'' @ nl
     @ lit ''    padding: 80px 0;'' @ nl
     @ lit ''}'' @ nl
     @ nl
     @ lit ''.section-title {'' @ nl
     @ lit ''    text-align: center;'' @ nl
     @ lit ''    font-size: 2.5rem;'' @ nl
     @ lit ''    margin-bottom: 3rem;'' @ nl
     @ lit ''    color: var(--primary-color);'' @ nl
     @ lit ''}'' @ nl
     @ nl
     @ lit ''.features-grid {'' @ nl
     @ lit ''    display: grid;'' @ nl
     @ lit ''    grid-template-columns: repeat(auto-fit, minmax(300px, 1fr));'' @ nl
     @ lit ''    gap: 2rem;'' @ nl
     @ lit ''}'' @ nl
     @ nl
     @ lit ''.feature-card {'' @ nl
     @ lit ''    background: var(--card-bg);'' @ nl
     @ lit ''    border: 1px solid var(--border-glow);'' @ nl
     @ lit ''    border-radius: 20px;'' @ nl
     @ lit ''    padding: 2rem;'' @ nl
     @ lit ''    text-align: center;'' @ nl
     @ lit ''    transition: var(--transition);'' @ nl
     @ lit ''}'' @ nl
     @ nl
     @ lit ''.feature-card:hover {'' @ nl
     @ lit ''    transform: translateY(-10px);'' @ nl
     @ lit ''    border-color: var(--primary-color);'' @ nl
     @ lit ''    box-shadow: var(--shadow-glow);'' @ nl
     @ lit ''}'' @ nl
     @ nl
     @ lit ''.feature-icon {'' @ nl
     @ lit ''    font-size: 3rem;'' @ nl
     @ lit ''    margin-bottom: 1.5rem;'' @ nl
     @ lit ''    color: var(--primary-color);'' @ nl
     @ lit ''}'' @ nl
     @ nl
     @ lit ''.feature-card h3 {'' @ nl
     @ lit ''    font-size: 1.5rem;'' @ nl
     @ lit ''    margin-bottom: 1rem;'' @ nl
     @ lit ''    color: var(--text-primary);'' @ nl
     @ lit ''}'' @ nl
     @ nl
     @ lit ''.feature-card p {'' @ nl
     @ lit ''    color: var(--text-secondary);'' @ nl
     @ lit ''}'' @ nl
     @ nl
     @ lit ''/* Footer */'' @ nl
     @ lit ''.footer {'' @ nl
     @ lit ''    background: rgba(10, 10, 26, 0.9);'' @ nl
     @ lit ''    border-top: 1px solid var(--border-glow);'' @ nl
     @ lit ''    padding: 2rem 0;'' @ nl
     @ lit ''    margin-top: 4rem;'' @ nl
     @ lit ''}'' @ nl
     @ nl
     @ lit ''.footer .container {'' @ nl
     @ lit ''    display: flex;'' @ nl
     @ lit ''    justify-content: space-between;'' @ nl
     @ lit ''    align-items: center;'' @ nl
     @ lit ''    flex-wrap: wrap;'' @ nl
     @ lit ''    gap: 1rem;'' @ nl
     @ lit ''}'' @ nl
     @ nl
     @ lit ''.footer p {'' @ nl
     @ lit ''    color: var(--text-secondary);'' @ nl
     @ lit ''}'' @ nl
     @ nl
     @ lit ''.social-links {'' @ nl
     @ lit ''    display: flex;'' @ nl
     @ lit ''    gap: 1rem;'' @ nl
     @ lit ''}'' @ nl
     @ nl
     @ lit ''.social-links a {'' @ nl
     @ lit ''    color: var(--text-secondary);'' @ nl
     @ lit ''    font-size: 1.5rem;'' @ nl
     @ lit ''    transition: var(--transition);'' @ nl
     @ lit ''}'' @ nl
     @ nl
     @ lit ''.social-links a:hover {'' @ nl
     @ lit ''    color: var(--primary-color);'' @ nl
     @ lit ''    transform: translateY(-3px);'' @ nl
     @ lit ''}'' @ nl
     @ nl
     @ lit ''/* Responsive Design */'' @ nl
     @ lit ''@media (max-width: 768px) {'' @ nl
     @ lit ''    .nav-links {'' @ nl
     @ lit ''        display: none;'' @ nl
     @ lit ''    }'' @ nl
     @ lit ''    '' @ nl
     @ lit ''    .menu-toggle {'' @ nl
     @ lit ''        display: block;'' @ nl
     @ lit ''    }'' @ nl
     @ lit ''    '' @ nl
     @ lit ''    .hero .container {'' @ nl
     @ lit ''        flex-direction: column;'' @ nl
     @ lit ''        text-align: center;'' @ nl
     @ lit ''    }'' @ nl
     @ lit ''    '' @ nl
     @ lit ''    .glow-text {'' @ nl
     @ lit ''        font-size: 2.5rem;'' @ nl
     @ lit ''    }'' @ nl
     @ lit ''    '' @ nl
     @ lit ''    .cta-buttons {'' @ nl
     @ lit ''        justify-content: center;'' @ nl
     @ lit ''    }'' @ nl
     @ lit ''    '' @ nl
     @ lit ''    .glow-circle {'' @ nl
     @ lit ''        width: 200px;'' @ nl
     @ lit ''        height: 200px;'' @ nl
     @ lit ''    }'' @ nl
     @ lit ''    '' @ nl
     @ lit ''    .footer .container {'' @ nl
     @ lit ''        flex-direction: column;'' @ nl
     @ lit ''        text-align: center;'' @ nl
     @ lit ''    }'' @ nl
     @ lit ''}'' @ nl
     @ nl
     @ lit ''@media (max-width: 480px) {'' @ nl
     @ lit ''    .glow-text {'' @ nl
     @ lit ''        font-size: 2rem;'' @ nl
     @ lit ''    }'' @ nl
     @ lit ''    '' @ nl
     @ lit ''    .btn {'' @ nl
     @ lit ''        padding: 0.8rem 1.5rem;'' @ nl
     @ lit ''        font-size: 0.9rem;'' @ nl
     @ lit ''    }'' @ nl
     @ lit ''    '' @ nl
     @ lit ''    .features-grid {'' @ nl
     @ lit ''        grid-template-columns: 1fr;'' @ nl
     @ lit ''    }'' @ nl
     @ lit ''}'' @ nl
     @ nl
     @ lit ''/* Custom Scrollbar */'' @ nl
     @ lit ''::-webkit-scrollbar {'' @ nl
     @ lit ''    width: 10px;'' @ nl
     @ lit ''}'' @ nl
     @ nl
     @ lit ''::-webkit-scrollbar-track {'' @ nl
     @ lit ''    background: var(--dark-bg);'' @ nl
     @ lit ''}'' @ nl
     @ nl
     @ lit ''::-webkit-scrollbar-thumb {'' @ nl
     @ lit ''    background: linear-gradient(180deg, var(--primary-color), var(--secondary-color));''
     @ nl
     @ lit ''    border-radius: 5px;'' @ nl
     @ lit ''}'' @ nl
     @ nl
     @ lit ''::-webkit-scrollbar-thumb:hover {'' @ nl
     @ lit ''    background: linear-gradient(180deg, var(--accent-color), var(--primary-color));''
     @ nl
     @ lit ''}''\<close>

definition template_js :: jsstring where
  \<open>template_js =
     lit ''// Happy AI Website Builder - JavaScript'' @ nl
     @ lit ''console.log('%c'' @ [0x2728] @ lit '' Happy AI Website Loaded '' @ [0x2728, 0x0027]
     @ lit '', 'color: #00ffaa; font-size: 16px; font-weight: bold;');'' @ nl
     @ lit ''console.log('%cBuilt with '' @ [0x2764, 0xFE0F]
     @ lit '' using Happy AI Builder', 'color: #a0a0ff;');'' @ nl
     @ nl
     @ lit ''// Initialize when page loads'' @ nl
     @ lit ''document.addEventListener('DOMContentLoaded', function() {'' @ nl
     @ lit ''    console.log('' @ [0x0027, 0xD83D, 0xDE80] @ lit '' Initializing website...');''
     @ nl
     @ lit ''    '' @ nl
     @ lit ''    // Initialize all features'' @ nl
     @ lit ''    initNavigation();'' @ nl
     @ lit ''    initAnimations();'' @ nl
     @ lit ''    initInteractiveElements();'' @ nl
     @ lit ''    initMobileMenu();'' @ nl
     @ lit ''    '' @ nl
     @ lit ''    console.log('' @ [0x0027, 0x2705]
     @ lit '' Website initialized successfully!');'' @ nl
     @ lit ''});'' @ nl
     @ nl
     @ lit ''// Navigation initialization'' @ nl
     @ lit ''function initNavigation() {'' @ nl
     @ lit ''    const navLinks = document.querySelectorAll('.nav-links a');'' @ nl
     @ lit ''    '' @ nl
     @ lit ''    navLinks.forEach(link => {'' @ nl
     @ lit ''        link.addEventListener('click', function(e) {'' @ nl
     @ lit ''            e.preventDefault();'' @ nl
     @ lit ''            '' @ nl
     @ lit ''            const targetId = this.getAttribute('href');'' @ nl
     @ lit ''            if (targetId && targetId !== '#') {'' @ nl
     @ lit ''                const targetElement = document.querySelector(targetId);'' @ nl
     @ lit ''                '' @ nl
     @ lit ''                if (targetElement) {'' @ nl
     @ lit ''                    // Smooth scroll to section'' @ nl
     @ lit ''                    window.scrollTo({'' @ nl
     @ lit ''                        top: targetElement.offsetTop - 80,'' @ nl
     @ lit ''                        behavior: 'smooth'' @ [0x0027] @ nl
     @ lit ''                    });'' @ nl
     @ lit ''                    '' @ nl
     @ lit ''                    // Update active link'' @ nl
     @ lit ''                    navLinks.forEach(l => l.classList.remove('active'));'' @ nl
     @ lit ''                    this.classList.add('active');'' @ nl
     @ lit ''                }'' @ nl
     @ lit ''            }'' @ nl
     @ lit ''        });'' @ nl
     @ lit ''    });'' @ nl
     @ lit ''    '' @ nl
     @ lit ''    // Add scroll spy for navigation'' @ nl
     @ lit ''    window.addEventListener('scroll', function() {'' @ nl
     @ lit ''        const sections = document.querySelectorAll('section');'' @ nl
     @ lit ''        const scrollPos = window.scrollY + 100;'' @ nl
     @ lit ''        '' @ nl
     @ lit ''        sections.forEach(section => {'' @ nl
     @ lit ''            const sectionTop = section.offsetTop;'' @ nl
     @ lit ''            const sectionHeight = section.clientHeight;'' @ nl
     @ lit ''            const sectionId = section.getAttribute('id');'' @ nl
     @ lit ''            '' @ nl
     @ lit ''            if (scrollPos >= sectionTop && scrollPos < sectionTop + sectionHeight) {''
     @ nl
     @ lit ''                navLinks.forEach(link => {'' @ nl
     @ lit ''                    link.classList.remove('active');'' @ nl
     @ lit ''                    if (link.getAttribute('href') === `#${sectionId}`) {'' @ nl
     @ lit ''                        link.classList.add('active');'' @ nl
     @ lit ''                    }'' @ nl
     @ lit ''                });'' @ nl
     @ lit ''            }'' @ nl
     @ lit ''        });'' @ nl
     @ lit ''    });'' @ nl
     @ lit ''}'' @ nl
     @ nl
     @ lit ''// Animations initialization'' @ nl
     @ lit ''function initAnimations() {'' @ nl
     @ lit ''    // Intersection Observer for scroll animations'' @ nl
     @ lit ''    const observerOptions = {'' @ nl
     @ lit ''        root: null,'' @ nl
     @ lit ''        rootMargin: '0px','' @ nl
     @ lit ''        threshold: 0.1'' @ nl
     @ lit ''    };'' @ nl
     @ lit ''    '' @ nl
     @ lit ''    const observer = new IntersectionObserver(function(entries) {'' @ nl
     @ lit ''        entries.forEach(entry => {'' @ nl
     @ lit ''            if (entry.isIntersecting) {'' @ nl
     @ lit ''                entry.target.classList.add('animate-in');'' @ nl
     @ lit ''            }'' @ nl
     @ lit ''        });'' @ nl
     @ lit ''    }, observerOptions);'' @ nl
     @ lit ''    '' @ nl
     @ lit ''    // Observe feature cards'' @ nl
     @ lit ''    const featureCards = document.querySelectorAll('.feature-card');'' @ nl
     @ lit ''    featureCards.forEach(card => {'' @ nl
     @ lit ''        observer.observe(card);'' @ nl
     @ lit ''        card.style.opacity = '0';'' @ nl
     @ lit ''        card.style.transform = 'translateY(20px)';'' @ nl
     @ lit ''        card.style.transition = 'all 0.6s ease';'' @ nl
     @ lit ''    });'' @ nl
     @ lit ''    '' @ nl
     @ lit ''    // Add CSS for animations'' @ nl
     @ lit ''    const style = document.createElement('style');'' @ nl
     @ lit ''    style.textContent = `'' @ nl
     @ lit ''        .animate-in {'' @ nl
     @ lit ''            opacity: 1 !important;'' @ nl
     @ lit ''            transform: translateY(0) !important;'' @ nl
     @ lit ''        }'' @ nl
     @ lit ''        '' @ nl
     @ lit ''        .feature-card:nth-child(1) { transition-delay: 0.1s; }'' @ nl
     @ lit ''        .feature-card:nth-child(2) { transition-delay: 0.2s; }'' @ nl
     @ lit ''        .feature-card:nth-child(3) { transition-delay: 0.3s; }'' @ nl
     @ lit ''        '' @ nl
     @ lit ''        @keyframes fadeInUp {'' @ nl
     @ lit ''            from {'' @ nl
     @ lit ''                opacity: 0;'' @ nl
     @ lit ''                transform: translateY(30px);'' @ nl
     @ lit ''            }'' @ nl
     @ lit ''            to {'' @ nl
     @ lit ''                opacity: 1;'' @ nl
     @ lit ''                transform: translateY(0);'' @ nl
     @ lit ''            }'' @ nl
     @ lit ''        }'' @ nl
     @ lit ''    `;'' @ nl
     @ lit ''    document.head.appendChild(style);'' @ nl
     @ lit ''}'' @ nl
     @ nl
     @ lit ''// Interactive elements initialization'' @ nl
     @ lit ''function initInteractiveElements() {'' @ nl
     @ lit ''    // Button click effects'' @ nl
     @ lit ''    const buttons = document.querySelectorAll('.btn');'' @ nl
     @ lit ''    '' @ nl
     @ lit ''    buttons.forEach(button => {'' @ nl
     @ lit ''        button.addEventListener('click', function(e) {'' @ nl
     @ lit ''            // Create ripple effect'' @ nl
     @ lit ''            const ripple = document.createElement('span');'' @ nl
     @ lit ''            const rect = this.getBoundingClientRect();'' @ nl
     @ lit ''            const size = Math.max(rect.width, rect.height);'' @ nl
     @ lit ''            const x = e.clientX - rect.left - size / 2;'' @ nl
     @ lit ''            const y = e.clientY - rect.top - size / 2;'' @ nl
     @ lit ''            '' @ nl
     @ lit ''            ripple.style.cssText = `'' @ nl
     @ lit ''                position: absolute;'' @ nl
     @ lit ''                border-radius: 50%;'' @ nl
     @ lit ''                background: rgba(255, 255, 255, 0.7);'' @ nl
     @ lit ''                transform: scale(0);'' @ nl
     @ lit ''                animation: ripple-animation 0.6s linear;'' @ nl
     @ lit ''                width: ${size}px;'' @ nl
     @ lit ''                height: ${size}px;'' @ nl
     @ lit ''                top: ${y}px;'' @ nl
     @ lit ''                left: ${x}px;'' @ nl
     @ lit ''                pointer-events: none;'' @ nl
     @ lit ''            `;'' @ nl
     @ lit ''            '' @ nl
     @ lit ''            this.appendChild(ripple);'' @ nl
     @ lit ''            '' @ nl
     @ lit ''            // Remove ripple after animation'' @ nl
     @ lit ''            setTimeout(() => {'' @ nl
     @ lit ''                ripple.remove();'' @ nl
     @ lit ''            }, 600);'' @ nl
     @ lit ''        });'' @ nl
     @ lit ''    });'' @ nl
     @ lit ''    '' @ nl
     @ lit ''    // Add ripple animation CSS'' @ nl
     @ lit ''    const rippleStyle = document.createElement('style');'' @ nl
     @ lit ''    rippleStyle.textContent = `'' @ nl
     @ lit ''        @keyframes ripple-animation {'' @ nl
     @ lit ''            to {'' @ nl
     @ lit ''                transform: scale(4);'' @ nl
     @ lit ''                opacity: 0;'' @ nl
     @ lit ''            }'' @ nl
     @ lit ''        }'' @ nl
     @ lit ''        '' @ nl
     @ lit ''        .btn {'' @ nl
     @ lit ''            position: relative;'' @ nl
     @ lit ''            overflow: hidden;'' @ nl
     @ lit ''        }'' @ nl
     @ lit ''    `;'' @ nl
     @ lit ''    document.head.appendChild(rippleStyle);'' @ nl
     @ lit ''    '' @ nl
     @ lit ''    // Glow effect on hover for feature cards'' @ nl
     @ lit ''    const featureCards = document.querySelectorAll('.feature-card');'' @ nl
     @ lit ''    '' @ nl
     @ lit ''    featureCards.forEach(card => {'' @ nl
     @ lit ''        card.addEventListener('mouseenter', function() {'' @ nl
     @ lit ''            this.style.boxShadow = '0 15px 40px rgba(0, 255, 170, 0.4)';'' @ nl
     @ lit ''        });'' @ nl
     @ lit ''        '' @ nl
     @ lit ''        card.addEventListener('mouseleave', function() {'' @ nl
     @ lit ''            this.style.boxShadow = '' @ [0x0027, 0x0027] @ lit '';'' @ nl
     @ lit ''        });'' @ nl
     @ lit ''    });'' @ nl
     @ lit ''}'' @ nl
     @ nl
     @ lit ''// Mobile menu initialization'' @ nl
     @ lit ''function initMobileMenu() {'' @ nl
     @ lit ''    const menuToggle = document.querySelector('.menu-toggle');'' @ nl
     @ lit ''    const navLinks = document.querySelector('.nav-links');'' @ nl
     @ lit ''    '' @ nl
     @ lit ''    if (menuToggle && navLinks) {'' @ nl
     @ lit ''        menuToggle.addEventListener('click', function() {'' @ nl
     @ lit ''            navLinks.style.display = navLinks.style.display === 'flex' ? 'none' : 'flex';''
     @ nl
     @ lit ''            '' @ nl
     @ lit ''            if (navLinks.style.display === 'flex') {'' @ nl
     @ lit ''                navLinks.style.cssText = `'' @ nl
     @ lit ''                    display: flex;'' @ nl
     @ lit ''                    flex-direction: column;'' @ nl
     @ lit ''                    position: absolute;'' @ nl
     @ lit ''                    top: 100%;'' @ nl
     @ lit ''                    left: 0;'' @ nl
     @ lit ''                    right: 0;'' @ nl
     @ lit ''                    background: var(--card-bg);'' @ nl
     @ lit ''                    backdrop-filter: blur(20px);'' @ nl
     @ lit ''                    padding: 1rem;'' @ nl
     @ lit ''                    border-bottom: 2px solid var(--border-glow);'' @ nl
     @ lit ''                    box-shadow: 0 10px 30px rgba(0, 0, 0, 0.3);'' @ nl
     @ lit ''                    z-index: 1000;'' @ nl
     @ lit ''                `;'' @ nl
     @ lit ''                '' @ nl
     @ lit ''                // Animate menu items'' @ nl
     @ lit ''                const links = navLinks.querySelectorAll('a');'' @ nl
     @ lit ''                links.forEach((link, index) => {'' @ nl
     @ lit ''                    link.style.opacity = '0';'' @ nl
     @ lit ''                    link.style.transform = 'translateY(-10px)';'' @ nl
     @ lit ''                    link.style.transition = 'all 0.3s ease';'' @ nl
     @ lit ''                    '' @ nl
     @ lit ''                    setTimeout(() => {'' @ nl
     @ lit ''                        link.style.opacity = '1';'' @ nl
     @ lit ''                        link.style.transform = 'translateY(0)';'' @ nl
     @ lit ''                    }, index * 100);'' @ nl
     @ lit ''                });'' @ nl
     @ lit ''            }'' @ nl
     @ lit ''        });'' @ nl
     @ lit ''        '' @ nl
     @ lit ''        // Close menu when clicking outside'' @ nl
     @ lit ''        document.addEventListener('click', function(e) {'' @ nl
     @ lit ''            if (!menuToggle.contains(e.target) && !navLinks.contains(e.target)) {''
     @ nl
     @ lit ''                if (window.innerWidth <= 768) {'' @ nl
     @ lit ''                    navLinks.style.display = 'none';'' @ nl
     @ lit ''                }'' @ nl
     @ lit ''            }'' @ nl
     @ lit ''        });'' @ nl
     @ lit ''        '' @ nl
     @ lit ''        // Handle window resize'' @ nl
     @ lit ''        window.addEventListener('resize', function() {'' @ nl
     @ lit ''            if (window.innerWidth > 768) {'' @ nl
     @ lit ''                navLinks.style.display = 'flex';'' @ nl
     @ lit ''                navLinks.style.cssText = '' @ [0x0027, 0x0027] @ lit '';'' @ nl
     @ lit ''            } else {'' @ nl
     @ lit ''                navLinks.style.display = 'none';'' @ nl
     @ lit ''            }'' @ nl
     @ lit ''        });'' @ nl
     @ lit ''    }'' @ nl
     @ lit ''}'' @ nl
     @ nl
     @ lit ''// Alert function for buttons'' @ nl
     @ lit ''function showAlert(message) {'' @ nl
     @ lit ''    alert(`'' @ [0xD83C, 0xDF89] @ lit '' ${message}`);'' @ nl
     @ lit ''    '' @ nl
     @ lit ''    // Add visual feedback'' @ nl
     @ lit ''    const alertSound = document.createElement('audio');'' @ nl
     @ lit ''    alertSound.innerHTML = '<source src="https://assets.mixkit.co/sfx/preview/mixkit-correct-answer-tone-2870.mp3" type="audio/mpeg">';''
     @ nl
     @ lit ''    document.body.appendChild(alertSound);'' @ nl
     @ lit ''    '' @ nl
     @ lit ''    try {'' @ nl
     @ lit ''        alertSound.play();'' @ nl
     @ lit ''    } catch (error) {'' @ nl
     @ lit ''        console.log('Audio play failed:', error);'' @ nl
     @ lit ''    }'' @ nl
     @ lit ''    '' @ nl
     @ lit ''    setTimeout(() => {'' @ nl
     @ lit ''        alertSound.remove();'' @ nl
     @ lit ''    }, 1000);'' @ nl
     @ lit ''}'' @ nl
     @ nl
     @ lit ''// Current year in footer'' @ nl
     @ lit ''function updateCurrentYear() {'' @ nl
     @ lit ''    const yearElement = document.querySelector('.footer p');'' @ nl
     @ lit ''    if (yearElement) {'' @ nl
     @ lit ''        const currentYear = new Date().getFullYear();'' @ nl
     @ lit ''        yearElement.innerHTML = yearElement.innerHTML.replace('2024', currentYear);''
     @ nl
     @ lit ''    }'' @ nl
     @ lit ''}'' @ nl
     @ nl
     @ lit ''// Initialize current year'' @ nl
     @ lit ''updateCurrentYear();'' @ nl
     @ nl
     @ lit ''// Performance monitoring'' @ nl
     @ lit ''let loadTime = window.performance.timing.domContentLoadedEventEnd - window.performance.timing.navigationStart;''
     @ nl
     @ lit ''console.log(`'' @ [0x23F1, 0xFE0F] @ lit '' Page load time: ${loadTime}ms`);'' @ nl
     @ nl
     @ lit ''// Add loading state'' @ nl
     @ lit ''window.addEventListener('load', function() {'' @ nl
     @ lit ''    document.body.classList.add('loaded');'' @ nl
     @ lit ''    '' @ nl
     @ lit ''    // Add loaded class for animations'' @ nl
     @ lit ''    setTimeout(() => {'' @ nl
     @ lit ''        document.body.style.opacity = '1';'' @ nl
     @ lit ''        document.body.style.transition = 'opacity 0.5s ease';'' @ nl
     @ lit ''    }, 100);'' @ nl
     @ lit ''});'' @ nl
     @ nl
     @ lit ''// Error handling'' @ nl
     @ lit ''window.addEventListener('error', function(e) {'' @ nl
     @ lit ''    console.error('' @ [0x0027, 0xD83D, 0xDEA8]
     @ lit '' Website Error:', e.error);'' @ nl
     @ lit ''    '' @ nl
     @ lit ''    // Show user-friendly error message'' @ nl
     @ lit ''    if (!document.getElementById('error-toast')) {'' @ nl
     @ lit ''        const errorToast = document.createElement('div');'' @ nl
     @ lit ''        errorToast.id = 'error-toast';'' @ nl
     @ lit ''        errorToast.style.cssText = `'' @ nl
     @ lit ''            position: fixed;'' @ nl
     @ lit ''            bottom: 20px;'' @ nl
     @ lit ''            right: 20px;'' @ nl
     @ lit ''            background: rgba(255, 0, 0, 0.9);'' @ nl
     @ lit ''            color: white;'' @ nl
     @ lit ''            padding: 1rem 1.5rem;'' @ nl
     @ lit ''            border-radius: 10px;'' @ nl
     @ lit ''            z-index: 9999;'' @ nl
     @ lit ''            animation: slideIn 0.3s ease;'' @ nl
     @ lit ''            max-width: 300px;'' @ nl
     @ lit ''            border-left: 4px solid #ff4444;'' @ nl
     @ lit ''        `;'' @ nl
     @ lit ''        '' @ nl
     @ lit ''        errorToast.innerHTML = `'' @ nl
     @ lit ''            <strong>'' @ [0x26A0, 0xFE0F] @ lit '' Something went wrong</strong>''
     @ nl
     @ lit ''            <p style="margin-top: 5px; font-size: 0.9rem;">Please refresh the page</p>''
     @ nl
     @ lit ''        `;'' @ nl
     @ lit ''        '' @ nl
     @ lit ''        document.body.appendChild(errorToast);'' @ nl
     @ lit ''        '' @ nl
     @ lit ''        // Auto remove after 5 seconds'' @ nl
     @ lit ''        setTimeout(() => {'' @ nl
     @ lit ''            errorToast.style.animation = 'slideOut 0.3s ease';'' @ nl
     @ lit ''            setTimeout(() => errorToast.remove(), 300);'' @ nl
     @ lit ''        }, 5000);'' @ nl
     @ lit ''    }'' @ nl
     @ lit ''});'' @ nl
     @ nl
     @ lit ''// Add animation styles'' @ nl
     @ lit ''const animationStyles = document.createElement('style');'' @ nl
     @ lit ''animationStyles.textContent = `'' @ nl
     @ lit ''    @keyframes slideIn {'' @ nl
     @ lit ''        from {'' @ nl
     @ lit ''            transform: translateX(100%);'' @ nl
     @ lit ''            opacity: 0;'' @ nl
     @ lit ''        }'' @ nl
     @ lit ''        to {'' @ nl
     @ lit ''            transform: translateX(0);'' @ nl
     @ lit ''            opacity: 1;'' @ nl
     @ lit ''        }'' @ nl
     @ lit ''    }'' @ nl
     @ lit ''    '' @ nl
     @ lit ''    @keyframes slideOut {'' @ nl
     @ lit ''        from {'' @ nl
     @ lit ''            transform: translateX(0);'' @ nl
     @ lit ''            opacity: 1;'' @ nl
     @ lit ''        }'' @ nl
     @ lit ''        to {'' @ nl
     @ lit ''            transform: translateX(100%);'' @ nl
     @ lit ''            opacity: 0;'' @ nl
     @ lit ''        }'' @ nl
     @ lit ''    }'' @ nl
     @ lit ''    '' @ nl
     @ lit ''    body {'' @ nl
     @ lit ''        opacity: 0;'' @ nl
     @ lit ''    }'' @ nl
     @ lit ''    '' @ nl
     @ lit ''    body.loaded {'' @ nl
     @ lit ''        opacity: 1;'' @ nl
     @ lit ''    }'' @ nl
     @ lit ''`;'' @ nl
     @ lit ''document.head.appendChild(animationStyles);'' @ nl
     @ nl
     @ lit ''// Export functions for global use'' @ nl
     @ lit ''window.HappyAI = {'' @ nl
     @ lit ''    showAlert: showAlert,'' @ nl
     @ lit ''    initNavigation: initNavigation,'' @ nl
     @ lit ''    initAnimations: initAnimations'' @ nl
     @ lit ''};'' @ nl
     @ nl
     @ lit ''console.log('' @ [0x0027, 0xD83C, 0xDF1F] @ lit '' Happy AI Website ready!');''\<close>

definition generateFallbackTemplate :: "world \<Rightarrow> jsstring \<Rightarrow> code" where
  "generateFallbackTemplate w message =
     \<lparr> html = Str (template_html_1 @ message @ template_html_2 @ message @ template_html_3
                     @ digits (getFullYear w (now w TemplateYear)) @ template_html_4),
       css = Str template_css,
       js = Str template_js \<rparr>"

definition generateFallbackResponse :: "world \<Rightarrow> jsstring \<Rightarrow> ai_response" where
  \<open>generateFallbackResponse w message =
     \<lparr> ai_message = Str (lit ''I created a "'' @ message @ lit ''" website for you! ''
                           @ [0xD83C, 0xDF89]),
       ai_code = generateFallbackTemplate w message \<rparr>\<close>

text \<open>\<open>v?.substring(0, 500) || 'None'\<close>: a number or boolean has no \<open>substring\<close>.\<close>

fun excerpt :: "prim \<Rightarrow> js_error + jsstring" where
  "excerpt Undefined = Inr (lit ''None'')"
| "excerpt Null = Inr (lit ''None'')"
| "excerpt (Str s) = Inr (if take 500 s = [] then lit ''None'' else take 500 s)"
| "excerpt (Bool b) = Inl TypeError"
| "excerpt (Num n) = Inl TypeError"

definition excerpt_of :: "jsval \<Rightarrow> jsstring \<Rightarrow> js_error + jsstring" where
  "excerpt_of currentCode k =
     (case get currentCode k of Inl e \<Rightarrow> Inl e | Inr v \<Rightarrow> excerpt v)"

text \<open>
  Building the request body; the parameter default \<open>currentCode = {}\<close> applies to
  \<open>undefined\<close> only, so \<open>null\<close> makes the first property read throw.
\<close>

definition request_of :: "jsstring \<Rightarrow> jsval \<Rightarrow> js_error + ai_request" where
  "request_of message currentCode =
     (let cc = (case currentCode of Prim Undefined \<Rightarrow> Obj [] | _ \<Rightarrow> currentCode) in
      case excerpt_of cc (lit ''html'') of Inl e \<Rightarrow> Inl e | Inr h \<Rightarrow>
      case excerpt_of cc (lit ''css'') of Inl e \<Rightarrow> Inl e | Inr c \<Rightarrow>
      case excerpt_of cc (lit ''js'') of Inl e \<Rightarrow> Inl e | Inr j \<Rightarrow>
      Inr \<lparr> user_wants = message, current_html = h, current_css = c, current_js = j \<rparr>)"

text \<open>The body of the inner \<open>try\<close>, after \<open>JSON.parse\<close> has returned \<open>aiData\<close>.\<close>

definition from_aiData :: "world \<Rightarrow> jsstring \<Rightarrow> jsval \<Rightarrow> js_error + ai_response" where
  "from_aiData w message aiData =
     (case get aiData (lit ''message'') of Inl e \<Rightarrow> Inl e | Inr m \<Rightarrow>
      case get aiData (lit ''html'') of Inl e \<Rightarrow> Inl e | Inr h \<Rightarrow>
      case get aiData (lit ''css'') of Inl e \<Rightarrow> Inl e | Inr c \<Rightarrow>
      case get aiData (lit ''js'') of Inl e \<Rightarrow> Inl e | Inr j \<Rightarrow>
      Inr \<lparr> ai_message = or_else m (Str (lit ''I created a website for you!'')),
            ai_code = \<lparr> html = or_else h (html (generateFallbackTemplate w message)),
                        css = or_else c (css (generateFallbackTemplate w message)),
                        js = or_else j (js (generateFallbackTemplate w message)) \<rparr> \<rparr>)"

definition generateAIResponse :: "env \<Rightarrow> world \<Rightarrow> jsstring \<Rightarrow> jsval \<Rightarrow> ai_response" where
  "generateAIResponse env w message currentCode =
     (if DEEPSEEK_API_KEY env \<noteq> [] then
        (case request_of message currentCode of
           Inl e \<Rightarrow> generateFallbackResponse w message
         | Inr req \<Rightarrow>
             (case deepseek w req of
                Rejected e \<Rightarrow> generateFallbackResponse w message
              | Unparsable \<Rightarrow> generateFallbackResponse w message
              | Parsed aiData \<Rightarrow>
                  (case from_aiData w message aiData of
                     Inl e \<Rightarrow> generateFallbackResponse w message
                   | Inr r \<Rightarrow> r)))
      else generateFallbackResponse w message)"

section \<open>The chat endpoint\<close>

record chat_body =
  req_message :: prim
  req_currentCode :: jsval

record chat_response =
  chat_status :: nat
  chat_success :: bool
  chat_text :: prim
  chat_code :: "code option"

definition chat_invalid :: chat_response where
  "chat_invalid =
     \<lparr> chat_status = 400, chat_success = False,
       chat_text = Str (lit ''Please enter a valid message (min 3 characters)''),
       chat_code = None \<rparr>"

text \<open>
  The body of the handler's \<open>try\<close>. A truthy message that is not a string has no
  \<open>trim\<close>, and calling it throws.
\<close>

definition chat_try :: "env \<Rightarrow> world \<Rightarrow> chat_body \<Rightarrow> js_error + chat_response" where
  "chat_try env w body =
     (if \<not> truthy (req_message body) then Inr chat_invalid
      else case req_message body of
        Str s \<Rightarrow>
          if length (trim s) < 3 then Inr chat_invalid
          else let aiResponse = generateAIResponse env w s (req_currentCode body) in
            Inr \<lparr> chat_status = 200, chat_success = True,
                  chat_text = ai_message aiResponse,
                  chat_code = Some (ai_code aiResponse) \<rparr>
      | _ \<Rightarrow> Inl TypeError)"

definition chat :: "env \<Rightarrow> world \<Rightarrow> chat_body \<Rightarrow> chat_response" where
  "chat env w body =
     (case chat_try env w body of
        Inr r \<Rightarrow> r
      | Inl error \<Rightarrow>
          \<lparr> chat_status = 200, chat_success = False,
            chat_text = Str (lit ''I created a website for you! Check the preview.''),
            chat_code = Some (generateFallbackTemplate w (lit ''AI generated website'')) \<rparr>)"

section \<open>The source publisher\<close>

definition getGitHubUsername :: "world \<Rightarrow> jsstring" where
  "getGitHubUsername w =
     (case getAuthenticated w of Inr login \<Rightarrow> login | Inl error \<Rightarrow> lit ''happy-ai-user'')"

definition readme :: "world \<Rightarrow> jsstring" where
  \<open>readme w =
       nl
       @ lit ''# Happy AI Website Builder'' @ nl
       @ nl
       @ lit ''This website was created using [Happy AI Website Builder](https://github.com/happy-ai/builder).''
       @ nl
       @ nl
       @ lit ''## Features'' @ nl
       @ lit ''- '' @ [0xD83D, 0xDE80] @ lit '' Built with AI assistance'' @ nl
       @ lit ''- '' @ [0xD83D, 0xDCF1] @ lit '' Fully responsive design'' @ nl
       @ lit ''- '' @ [0xD83C, 0xDFA8] @ lit '' Modern dark theme with glowing effects''
       @ nl
       @ lit ''- '' @ [0x26A1] @ lit '' Fast and optimized performance'' @ nl
       @ nl
       @ lit ''## Created on'' @ nl
       @ toISOString w (now w ReadmeDate) @ nl
       @ nl
       @ lit ''## How to deploy'' @ nl
       @ lit ''This website is ready to be deployed on Vercel, Netlify, or any static hosting service.''
       @ nl
       @ nl
       @ lit ''---'' @ nl
       @ lit ''*Created with '' @ [0x2764, 0xFE0F] @ lit '' by Happy AI Website Builder*''
       @ nl
       @ lit ''                ''\<close>

record github_data =
  gd_url :: prim
  gd_repoName :: jsstring
  gd_cloneUrl :: prim

text \<open>
  The array \<open>files\<close>, as \<open>files[0]\<close> and the rest: every content is computed before
  the first file is sent, so a field that \<open>Buffer.from\<close> refuses throws before any
  file-creation call.
\<close>

definition repo_files ::
  "world \<Rightarrow> jsval \<Rightarrow> jsstring \<Rightarrow> jsstring
     \<Rightarrow> js_error + file_request \<times> file_request list" where
  "repo_files w project username repoName =
     (case get project (lit ''html'') of Inl e \<Rightarrow> Inl e | Inr h \<Rightarrow>
      case base64 h of Inl e \<Rightarrow> Inl e | Inr html64 \<Rightarrow>
      case get project (lit ''css'') of Inl e \<Rightarrow> Inl e | Inr c \<Rightarrow>
      case base64 (or_else c (css (generateFallbackTemplate w []))) of Inl e \<Rightarrow> Inl e | Inr css64 \<Rightarrow>
      case get project (lit ''js'') of Inl e \<Rightarrow> Inl e | Inr j \<Rightarrow>
      case base64 (or_else j (js (generateFallbackTemplate w []))) of Inl e \<Rightarrow> Inl e | Inr js64 \<Rightarrow>
      Inr ( \<lparr> file_owner = Str username, file_repo = Str repoName,
              file_path = lit ''index.html'',
              file_message = lit ''Add HTML file - Created with Happy AI Builder'',
              file_content = html64 \<rparr>,
          [ \<lparr> file_owner = Str username, file_repo = Str repoName,
              file_path = lit ''style.css'',
              file_message = lit ''Add CSS file - Created with Happy AI Builder'',
              file_content = css64 \<rparr>,
            \<lparr> file_owner = Str username, file_repo = Str repoName,
              file_path = lit ''script.js'',
              file_message = lit ''Add JavaScript file - Created with Happy AI Builder'',
              file_content = js64 \<rparr>,
            \<lparr> file_owner = Str username, file_repo = Str repoName,
              file_path = lit ''README.md'',
              file_message = lit ''Add README file'',
              file_content = Base64 (readme w) \<rparr> ]))"

text \<open>
  What the publisher leaves behind, in order: the outbound calls it attempts and, of the
  console, the line that the \<open>catch\<close> inside the loop writes with \<open>console.error\<close>
  (its text and the message of the error).
\<close>

datatype event = Call outbound | ConsoleError jsstring msg_text

text \<open>
  The body of the loop over \<open>files[1..]\<close>: the call is attempted, and a failure is logged
  and dropped by the \<open>catch\<close> inside the loop.
\<close>

definition add_file :: "world \<Rightarrow> file_request \<Rightarrow> event list" where
  "add_file w f =
     (case createOrUpdateFileContents w f of
        Inr u \<Rightarrow> [Call (PutFile f)]
      | Inl fileError \<Rightarrow>
          [Call (PutFile f),
           ConsoleError ([0x274C] @ lit '' Failed to add '' @ file_path f @ lit '':'')
             (err_message fileError)])"

fun add_other_files :: "world \<Rightarrow> file_request list \<Rightarrow> event list" where
  "add_other_files w [] = []"
| "add_other_files w (f # fs) = add_file w f @ add_other_files w fs"

text \<open>The argument of \<open>createForAuthenticatedUser\<close>, for the value of \<open>project.name\<close>.\<close>

definition repo_request_of :: "jsstring \<Rightarrow> prim \<Rightarrow> repo_request" where
  "repo_request_of repoName n =
     \<lparr> repo_name = repoName,
       repo_description = lit ''Website created with Happy AI Builder - ''
         @ toString (or_else n (Str (lit ''AI Generated''))),
       repo_private = False, repo_auto_init = False \<rparr>"

text \<open>
  The body of the \<open>try\<close> of \<open>createGitHubRepository\<close>, with what it has left behind so far.
  \<open>files[0]\<close> is sent outside the loop, with no \<open>catch\<close> of its own.
\<close>

definition createGitHubRepository_try ::
  "env \<Rightarrow> world \<Rightarrow> jsval \<Rightarrow> (js_error + github_data) \<times> event list" where
  "createGitHubRepository_try env w project =
     (if GITHUB_TOKEN env = [] then (Inl (Error (lit ''GitHub token not configured'') None), [])
      else
        let repoName = lit ''happy-website-'' @ digits (now w RepoName);
            username = getGitHubUsername w in
        case get project (lit ''name'') of Inl e \<Rightarrow> (Inl e, [Call GetUser]) | Inr n \<Rightarrow>
        let request = repo_request_of repoName n in
        case createForAuthenticatedUser w request of
          Inl e \<Rightarrow> (Inl e, [Call GetUser, Call (CreateRepo request)])
        | Inr repo \<Rightarrow>
        case repo_files w project username repoName of
          Inl e \<Rightarrow> (Inl e, [Call GetUser, Call (CreateRepo request)])
        | Inr (first, others) \<Rightarrow>
        case createOrUpdateFileContents w first of
          Inl e \<Rightarrow> (Inl e, [Call GetUser, Call (CreateRepo request), Call (PutFile first)])
        | Inr u \<Rightarrow>
            (Inr \<lparr> gd_url = html_url repo,
                    gd_repoName = username @ lit ''/'' @ repoName,
                    gd_cloneUrl = clone_url repo \<rparr>,
             [Call GetUser, Call (CreateRepo request), Call (PutFile first)]
               @ add_other_files w others))"

text \<open>The \<open>catch\<close> of \<open>createGitHubRepository\<close>: it always throws again.\<close>

definition createGitHubRepository_catch :: "js_error \<Rightarrow> js_error" where
  "createGitHubRepository_catch error =
     (if err_status error = Some 401
        then Error (lit ''Invalid GitHub token. Please check your GITHUB_TOKEN.'') None
      else if err_status error = Some 422
        then Error (lit ''Repository might already exist or name is invalid.'') None
      else error)"

definition createGitHubRepository ::
  "env \<Rightarrow> world \<Rightarrow> jsval \<Rightarrow> (js_error + github_data) \<times> event list" where
  "createGitHubRepository env w project =
     (case createGitHubRepository_try env w project of
        (Inr r, events) \<Rightarrow> (Inr r, events)
      | (Inl error, events) \<Rightarrow> (Inl (createGitHubRepository_catch error), events))"

section \<open>The deployment trigger\<close>

definition vercel_json :: jsstring where
  \<open>vercel_json =
     lit ''{"version":2,"builds":[{"src":"*.html","use":"@vercel/static"},''
     @ lit ''{"src":"*.js","use":"@vercel/static"},{"src":"*.css","use":"@vercel/static"}],''
     @ lit ''"routes":[{"src":"/(.*)","dest":"/index.html"}]}''\<close>

text \<open>The body of the \<open>try\<close> of \<open>deployToVercel\<close>.\<close>

definition deployToVercel_try ::
  "env \<Rightarrow> world \<Rightarrow> jsstring \<Rightarrow> jsval \<Rightarrow> js_error + jsstring" where
  "deployToVercel_try env w repoName project =
     (if VERCEL_TOKEN env \<noteq> [] \<and> VERCEL_PROJECT_ID env \<noteq> [] then
        (case vercel_deployments w
                (GitDeployment (lit ''happy-website-'' @ digits (now w DeploymentName))
                   (VERCEL_PROJECT_ID env) repoName) of
           Inl e \<Rightarrow> Inl e
         | Inr url \<Rightarrow> Inr (lit ''https://'' @ url @ lit ''.vercel.app''))
      else
        case get project (lit ''html'') of Inl e \<Rightarrow> Inl e | Inr h \<Rightarrow>
        case get project (lit ''css'') of Inl e \<Rightarrow> Inl e | Inr c \<Rightarrow>
        case get project (lit ''js'') of Inl e \<Rightarrow> Inl e | Inr j \<Rightarrow>
        case vercel_deployments w
               (FileDeployment (lit ''happy-ai-website-'' @ digits (now w DirectDeploymentName))
                  [(lit ''index.html'', h),
                   (lit ''style.css'', or_else c (css (generateFallbackTemplate w []))),
                   (lit ''script.js'', or_else j (js (generateFallbackTemplate w []))),
                   (lit ''vercel.json'', Str vercel_json)]) of
          Inl e \<Rightarrow> Inl e
        | Inr url \<Rightarrow> Inr (lit ''https://'' @ url @ lit ''.vercel.app''))"

definition deployToVercel :: "env \<Rightarrow> world \<Rightarrow> jsstring \<Rightarrow> jsval \<Rightarrow> jsstring" where
  "deployToVercel env w repoName project =
     (case deployToVercel_try env w repoName project of
        Inr deploymentUrl \<Rightarrow> deploymentUrl
      | Inl error \<Rightarrow> lit ''https://happy-website-'' @ digits (now w DeployMockUrl)
                       @ lit ''.vercel.app'')"

section \<open>The deploy endpoint\<close>

record deploy_response =
  dep_status :: nat
  dep_success :: bool
  dep_url :: jsstring
  dep_github :: prim
  dep_error :: "msg_text option"
  dep_message :: "jsstring option"

definition deploy_invalid :: deploy_response where
  "deploy_invalid =
     \<lparr> dep_status = 400, dep_success = False, dep_url = [], dep_github = Str [],
       dep_error = Some (Text (lit ''Invalid project data'')), dep_message = None \<rparr>"

text \<open>\<open>!v\<close> on a value: an object is truthy.\<close>

fun truthy_val :: "jsval \<Rightarrow> bool" where
  "truthy_val (Prim p) = truthy p"
| "truthy_val (Obj kvs) = True"

text \<open>\<open>error.message || d\<close>.\<close>

fun message_or :: "msg_text \<Rightarrow> jsstring \<Rightarrow> msg_text" where
  "message_or EngineText d = EngineText"
| "message_or (Text m) d = (if m \<noteq> [] then Text m else Text d)"

text \<open>The body of the handler's \<open>try\<close>.\<close>

definition deploy_try :: "env \<Rightarrow> world \<Rightarrow> jsval \<Rightarrow> js_error + deploy_response" where
  "deploy_try env w project =
     (if \<not> truthy_val project then Inr deploy_invalid
      else case get project (lit ''html'') of Inl e \<Rightarrow> Inl e | Inr h \<Rightarrow>
      if \<not> truthy h then Inr deploy_invalid
      else
        case (if GITHUB_TOKEN env \<noteq> [] then fst (createGitHubRepository env w project)
              else Inr \<lparr> gd_url = Str (lit ''https://github.com/happy-ai/website-''
                                        @ digits (now w MockRepoUrl)),
                         gd_repoName = lit ''happy-ai/website-'' @ digits (now w MockRepoName),
                         gd_cloneUrl = Undefined \<rparr>) of
          Inl e \<Rightarrow> Inl e
        | Inr githubData \<Rightarrow>
            let vercelUrl =
              (if VERCEL_TOKEN env \<noteq> [] \<and> gd_repoName githubData \<noteq> []
               then deployToVercel env w (gd_repoName githubData) project
               else lit ''https://happy-website-'' @ digits (now w MockVercelUrl)
                      @ lit ''.vercel.app'')
            in Inr \<lparr> dep_status = 200, dep_success = True, dep_url = vercelUrl,
                     dep_github = gd_url githubData, dep_error = None,
                     dep_message = Some (lit ''Website deployed successfully! ''
                                           @ [0xD83D, 0xDE80]) \<rparr>)"

definition deploy :: "env \<Rightarrow> world \<Rightarrow> jsval \<Rightarrow> deploy_response" where
  "deploy env w project =
     (case deploy_try env w project of
        Inr r \<Rightarrow> r
      | Inl error \<Rightarrow>
          \<lparr> dep_status = 200, dep_success = False,
            dep_url = lit ''https://happy-fallback-'' @ digits (now w FallbackUrl)
                        @ lit ''.vercel.app'',
            dep_github = Str (lit ''https://github.com/happy-ai/fallback-repo''),
            dep_error = Some (message_or (err_message error)
                                (lit ''Deployment failed, but here are demo URLs'')),
            dep_message =
              Some (lit ''Demo URLs generated. For real deployment, check API keys.'') \<rparr>)"

section \<open>The session store\<close>

record saved_project =
  sp_id :: jsstring
  sp_name :: prim
  sp_preview :: jsstring
  sp_timestamp :: jsstring
  sp_code :: code

record session =
  userId :: prim
  projects :: "saved_project list"
  createdAt :: nat

text \<open>
  \<open>userSessions\<close>, a \<open>Map\<close>: its keys are compared by value on leaves. Nothing iterates
  over it, so its insertion order is not kept.
\<close>

type_synonym sessions = "prim \<rightharpoonup> session"

text \<open>
  The block \<open>if (!userSessions.has(userId)) userSessions.set(userId, {...})\<close> that both
  handlers start with.
\<close>

definition ensure_session :: "world \<Rightarrow> sessions \<Rightarrow> prim \<Rightarrow> sessions" where
  "ensure_session w store uid =
     (case store uid of
        None \<Rightarrow> store(uid \<mapsto> \<lparr> userId = uid, projects = [],
                               createdAt = now w SessionCreatedAt \<rparr>)
      | Some userData \<Rightarrow> store)"

record history_response =
  hist_success :: bool
  hist_history :: "saved_project list"
  hist_total :: nat

text \<open>
  \<open>GET /api/history/:userId\<close>: the identifier is a path segment, hence a string. The
  handler reads nothing else from the request, and answers with \<open>projects.slice(0, 10)\<close>.
  If \<open>userSessions.get\<close> found nothing, reading \<open>projects\<close> would throw and the
  \<open>catch\<close> would answer with an empty history.
\<close>

definition history :: "world \<Rightarrow> sessions \<Rightarrow> jsstring \<Rightarrow> history_response \<times> sessions" where
  "history w store uid =
     (let store' = ensure_session w store (Str uid) in
      case store' (Str uid) of
        Some userData \<Rightarrow>
          (\<lparr> hist_success = True, hist_history = take 10 (projects userData),
             hist_total = length (projects userData) \<rparr>, store')
      | None \<Rightarrow> (\<lparr> hist_success = False, hist_history = [], hist_total = 0 \<rparr>, store'))"

record save_response =
  save_success :: bool
  save_message :: "jsstring option"
  save_projectId :: "jsstring option"
  save_error :: "msg_text option"

text \<open>\<open>project.html ? project.html.substring(0, 200) + '...' : ''\<close>.\<close>

fun preview :: "prim \<Rightarrow> js_error + jsstring" where
  "preview (Str s) = Inr (if s \<noteq> [] then take 200 s @ lit ''...'' else [])"
| "preview v = (if truthy v then Inl TypeError else Inr [])"

text \<open>The object literal handed to \<open>unshift\<close>.\<close>

definition new_project :: "world \<Rightarrow> jsval \<Rightarrow> js_error + saved_project" where
  "new_project w project =
     (case get project (lit ''name'') of Inl e \<Rightarrow> Inl e | Inr n \<Rightarrow>
      case get project (lit ''html'') of Inl e \<Rightarrow> Inl e | Inr h \<Rightarrow>
      case preview h of Inl e \<Rightarrow> Inl e | Inr pv \<Rightarrow>
      case get project (lit ''css'') of Inl e \<Rightarrow> Inl e | Inr c \<Rightarrow>
      case get project (lit ''js'') of Inl e \<Rightarrow> Inl e | Inr j \<Rightarrow>
      Inr \<lparr> sp_id = lit ''project_'' @ digits (now w ProjectId),
            sp_name = or_else n (Str (lit ''Untitled'')),
            sp_preview = pv,
            sp_timestamp = toISOString w (now w ProjectTimestamp),
            sp_code = \<lparr> html = or_else h (Str []), css = or_else c (Str []),
                        js = or_else j (Str []) \<rparr> \<rparr>)"

text \<open>\<open>unshift\<close>, then \<open>if (length > 20) projects = projects.slice(0, 20)\<close>.\<close>

definition add_project :: "saved_project \<Rightarrow> saved_project list \<Rightarrow> saved_project list" where
  "add_project p ps = (if length (p # ps) > 20 then take 20 (p # ps) else p # ps)"

text \<open>
  \<open>POST /api/save\<close>. The session is created before the project is read, so a request
  whose project cannot be read still leaves a session behind. Every throw (no session found,
  a project that cannot be read, no \<open>projects[0]\<close>) is answered by the \<open>catch\<close> with
  \<open>success\<close> false and the text of the error.
\<close>

definition save :: "world \<Rightarrow> sessions \<Rightarrow> prim \<Rightarrow> jsval \<Rightarrow> save_response \<times> sessions" where
  "save w store uid project =
     (let store' = ensure_session w store uid in
      case store' uid of
        None \<Rightarrow> (\<lparr> save_success = False, save_message = None, save_projectId = None,
                    save_error = Some EngineText \<rparr>, store')
      | Some userData \<Rightarrow>
          (case new_project w project of
             Inl error \<Rightarrow>
               (\<lparr> save_success = False, save_message = None, save_projectId = None,
                  save_error = Some (err_message error) \<rparr>, store')
           | Inr p \<Rightarrow>
               (case add_project p (projects userData) of
                  [] \<Rightarrow> (\<lparr> save_success = False, save_message = None, save_projectId = None,
                            save_error = Some EngineText \<rparr>, store'(uid \<mapsto> userData\<lparr>projects := []\<rparr>))
                | q # qs \<Rightarrow>
                    (\<lparr> save_success = True,
                       save_message = Some (lit ''Project saved successfully''),
                       save_projectId = Some (sp_id q), save_error = None \<rparr>,
                     store'(uid \<mapsto> userData\<lparr>projects := q # qs\<rparr>)))))"

section \<open>The website factory (the earlier variant of the service)\<close>

text \<open>
  The earlier variant defines \<open>createGitHubRepository\<close> and \<open>deployToVercel\<close> too, with
  other bodies; they carry the suffix \<open>_v1\<close> here.
\<close>

record website =
  ws_url :: jsstring
  ws_github :: prim
  ws_description :: prim
  ws_created :: nat

record chat_message =
  role :: jsstring
  content :: prim
  timestamp :: nat

record agent =
  agent_id :: prim
  created :: nat
  conversation :: "chat_message list"
  websites :: "website list"

type_synonym agents = "prim \<rightharpoonup> agent"

fun createFallbackHTML :: "prim \<Rightarrow> js_error + jsstring" where
  \<open>createFallbackHTML (Str description) = Inr (
       lit ''<!DOCTYPE html>'' @ nl
       @ lit ''<html lang="en">'' @ nl
       @ lit ''<head>'' @ nl
       @ lit ''    <meta charset="UTF-8">'' @ nl
       @ lit ''    <meta name="viewport" content="width=device-width, initial-scale=1.0">''
       @ nl
       @ lit ''    <title>'' @ take 50 description @ lit ''</title>'' @ nl
       @ lit ''    <link rel="stylesheet" href="style.css">'' @ nl
       @ lit ''</head>'' @ nl
       @ lit ''<body>'' @ nl
       @ lit ''    <div class="container">'' @ nl
       @ lit ''        <header>'' @ nl
       @ lit ''            <h1>Welcome to Your Website</h1>'' @ nl
       @ lit ''            <p>Created with AI Website Factory</p>'' @ nl
       @ lit ''        </header>'' @ nl
       @ lit ''        <main>'' @ nl
       @ lit ''            <section class="hero">'' @ nl
       @ lit ''                <h2>'' @ description @ lit ''</h2>'' @ nl
       @ lit ''                <p>This website was generated automatically.</p>'' @ nl
       @ lit ''            </section>'' @ nl
       @ lit ''        </main>'' @ nl
       @ lit ''        <footer>'' @ nl
       @ lit ''            <p>Managed by AI Agent</p>'' @ nl
       @ lit ''        </footer>'' @ nl
       @ lit ''    </div>'' @ nl
       @ lit ''    <script src="script.js"></script>'' @ nl
       @ lit ''</body>'' @ nl
       @ lit ''</html>'')\<close>
| \<open>createFallbackHTML v = Inl TypeError\<close>

definition createFallbackCSS :: jsstring where
  "createFallbackCSS =
       lit ''* { margin: 0; padding: 0; box-sizing: border-box; }'' @ nl
       @ lit ''body { font-family: system-ui; background: #0f172a; color: white; }'' @ nl
       @ lit ''.container { max-width: 1200px; margin: 0 auto; padding: 20px; }''"

definition createFallbackJS :: jsstring where
  "createFallbackJS = lit ''console.log('' @ [0x27] @ lit ''Website loaded'' @ [0x27] @ lit '');''"

text \<open>
  One \<open>try\<close> around the call and \<open>JSON.parse\<close>; the \<open>catch\<close> builds the fallback, and
  \<open>createFallbackHTML\<close> throws there when the description is not a string.
\<close>

definition generateWebsiteCode :: "world \<Rightarrow> prim \<Rightarrow> (js_error + jsval) \<times> outbound list" where
  "generateWebsiteCode w description =
     (let request = lit ''Create a website: '' @ toString description in
      case deepseek_website w request of
        Parsed v \<Rightarrow> (Inr v, [Completion request])
      | other \<Rightarrow>
          (case createFallbackHTML description of
             Inl e \<Rightarrow> (Inl e, [Completion request])
           | Inr h \<Rightarrow>
               (Inr (Obj [(lit ''html'', Str h), (lit ''css'', Str createFallbackCSS),
                          (lit ''js'', Str createFallbackJS)]),
                [Completion request])))"

text \<open>\<open>Buffer.from(code.k).toString('base64')\<close>.\<close>

definition content_of :: "jsval \<Rightarrow> jsstring \<Rightarrow> js_error + payload" where
  "content_of code k = (case get code k of Inl e \<Rightarrow> Inl e | Inr v \<Rightarrow> base64 v)"

definition file_v1 :: "repo_data \<Rightarrow> jsstring \<Rightarrow> jsstring \<Rightarrow> payload \<Rightarrow> file_request" where
  "file_v1 repo path msg c =
     \<lparr> file_owner = owner_login repo, file_repo = data_name repo, file_path = path,
       file_message = msg, file_content = c \<rparr>"

text \<open>
  The body of the \<open>try\<close> of the earlier \<open>createGitHubRepository\<close>: three file-creation
  calls in a row, none with a \<open>catch\<close> of its own. It yields \<open>url\<close> and \<open>fullName\<close>.
\<close>

definition createGitHubRepository_v1_try ::
  "world \<Rightarrow> jsval \<Rightarrow> prim \<Rightarrow> (js_error + prim \<times> prim) \<times> outbound list" where
  "createGitHubRepository_v1_try w code agentId =
     (let repoName = lit ''website-'' @ toString agentId @ lit ''-''
                       @ digits (now w WebsiteRepoName);
          request = \<lparr> repo_name = repoName,
                      repo_description = lit ''AI Generated Website - Agent: '' @ toString agentId,
                      repo_private = False, repo_auto_init = False \<rparr>;
          c0 = [CreateRepo request] in
      case createForAuthenticatedUser w request of Inl e \<Rightarrow> (Inl e, c0) | Inr repo \<Rightarrow>
      case content_of code (lit ''html'') of Inl e \<Rightarrow> (Inl e, c0) | Inr h \<Rightarrow>
      let f1 = file_v1 repo (lit ''index.html'') (lit ''Add HTML'') h; c1 = c0 @ [PutFile f1] in
      case createOrUpdateFileContents w f1 of Inl e \<Rightarrow> (Inl e, c1) | Inr u1 \<Rightarrow>
      case content_of code (lit ''css'') of Inl e \<Rightarrow> (Inl e, c1) | Inr c \<Rightarrow>
      let f2 = file_v1 repo (lit ''style.css'') (lit ''Add CSS'') c; c2 = c1 @ [PutFile f2] in
      case createOrUpdateFileContents w f2 of Inl e \<Rightarrow> (Inl e, c2) | Inr u2 \<Rightarrow>
      case content_of code (lit ''js'') of Inl e \<Rightarrow> (Inl e, c2) | Inr j \<Rightarrow>
      let f3 = file_v1 repo (lit ''script.js'') (lit ''Add JS'') j; c3 = c2 @ [PutFile f3] in
      case createOrUpdateFileContents w f3 of Inl e \<Rightarrow> (Inl e, c3) | Inr u3 \<Rightarrow>
      (Inr (html_url repo, full_name repo), c3))"

definition createGitHubRepository_v1 ::
  "world \<Rightarrow> jsval \<Rightarrow> prim \<Rightarrow> (js_error + prim \<times> prim) \<times> outbound list" where
  "createGitHubRepository_v1 w code agentId =
     (case createGitHubRepository_v1_try w code agentId of
        (Inr r, calls) \<Rightarrow> (Inr r, calls)
      | (Inl error, calls) \<Rightarrow>
          (Inl (Error (lit ''Failed to create GitHub repository'') None), calls))"

text \<open>\<open>s.split('/')\<close> and the element \<open>[1]\<close> of the result.\<close>

fun split_on :: "jschar \<Rightarrow> jsstring \<Rightarrow> jsstring list" where
  "split_on c [] = [[]]"
| "split_on c (x # xs) =
     (if x = c then [] # split_on c xs
      else case split_on c xs of
             p # ps \<Rightarrow> (x # p) # ps
           | [] \<Rightarrow> [[x]])"

fun second :: "jsstring list \<Rightarrow> prim" where
  "second (a # b # rest) = Str b"
| "second other = Undefined"

definition deployToVercel_v1 :: "world \<Rightarrow> prim \<Rightarrow> (js_error + jsstring) \<times> outbound list" where
  "deployToVercel_v1 w repoFullName =
     (case repoFullName of
        Str s \<Rightarrow>
          (let request = RepoDeployment (second (split_on 0x002F s)) s in
           case vercel_deployments w request of
             Inr url \<Rightarrow> (Inr (lit ''https://'' @ url), [Deploy request])
           | Inl error \<Rightarrow> (Inl (Error (lit ''Failed to deploy to Vercel'') None), [Deploy request]))
      | other \<Rightarrow> (Inl (Error (lit ''Failed to deploy to Vercel'') None), []))"

record generate_response =
  gen_status :: nat
  gen_success :: bool
  gen_url :: "jsstring option"
  gen_github :: "prim option"
  gen_message :: "jsstring option"
  gen_agentId :: "prim option"
  gen_error :: "msg_text option"

definition generate_failed :: "nat \<Rightarrow> msg_text \<Rightarrow> generate_response" where
  "generate_failed st m =
     \<lparr> gen_status = st, gen_success = False, gen_url = None, gen_github = None,
       gen_message = None, gen_agentId = None, gen_error = Some m \<rparr>"

text \<open>
  \<open>!description || description.length < 10\<close>: a number or boolean has no \<open>length\<close>, and
  \<open>undefined < 10\<close> is false.
\<close>

definition too_short :: "prim \<Rightarrow> bool" where
  "too_short description \<longleftrightarrow>
     \<not> truthy description \<or> (case description of Str s \<Rightarrow> length s < 10 | other \<Rightarrow> False)"

text \<open>
  \<open>POST /api/generate-website\<close>: the response, the agents afterwards and the outbound
  calls attempted. Every throw reaches the handler's \<open>catch\<close>, which answers 500.
\<close>

definition generate_website ::
  "world \<Rightarrow> agents \<Rightarrow> prim \<Rightarrow> prim \<Rightarrow> generate_response \<times> agents \<times> outbound list" where
  "generate_website w ags description agentId =
     (if too_short description then
        (generate_failed 400 (Text (lit ''Please provide detailed description'')), ags, [])
      else
        case generateWebsiteCode w description of
          (Inl error, c1) \<Rightarrow> (generate_failed 500 (err_message error), ags, c1)
        | (Inr websiteCode, c1) \<Rightarrow>
        case createGitHubRepository_v1 w websiteCode agentId of
          (Inl error, c2) \<Rightarrow> (generate_failed 500 (err_message error), ags, c1 @ c2)
        | (Inr (url, fullName), c2) \<Rightarrow>
        case deployToVercel_v1 w fullName of
          (Inl error, c3) \<Rightarrow> (generate_failed 500 (err_message error), ags, c1 @ c2 @ c3)
        | (Inr vercelUrl, c3) \<Rightarrow>
            (\<lparr> gen_status = 200, gen_success = True, gen_url = Some vercelUrl,
               gen_github = Some url, gen_message = Some (lit ''Website created and deployed!''),
               gen_agentId = Some agentId, gen_error = None \<rparr>,
             (case ags agentId of
                None \<Rightarrow> ags
              | Some a \<Rightarrow>
                  ags(agentId \<mapsto> a\<lparr>websites := websites a @
                        [\<lparr> ws_url = vercelUrl, ws_github = url, ws_description = description,
                           ws_created = now w WebsiteCreated \<rparr>]\<rparr>)),
             c1 @ c2 @ c3))"

section \<open>Sequences of requests\<close>

text \<open>\<open>POST /api/save\<close> for one user, once per element, each request in its own world.\<close>

fun save_each :: "sessions \<Rightarrow> prim \<Rightarrow> (world \<times> jsval) list \<Rightarrow> sessions" where
  "save_each store uid [] = store"
| "save_each store uid ((w, project) # rest) =
     save_each (snd (save w store uid project)) uid rest"

text \<open>The two requests that touch the session store, and a run of them.\<close>

datatype request = History jsstring | Save prim jsval

fun serve :: "world \<Rightarrow> sessions \<Rightarrow> request \<Rightarrow> sessions" where
  "serve w store (History uid) = snd (history w store uid)"
| "serve w store (Save uid project) = snd (save w store uid project)"

fun serve_all :: "sessions \<Rightarrow> (world \<times> request) list \<Rightarrow> sessions" where
  "serve_all store [] = store"
| "serve_all store ((w, r) # rest) = serve_all (serve w store r) rest"

text \<open>The project list stored for a key; empty when there is no session.\<close>

definition projects_of :: "sessions \<Rightarrow> prim \<Rightarrow> saved_project list" where
  "projects_of store uid = (case store uid of None \<Rightarrow> [] | Some userData \<Rightarrow> projects userData)"

section \<open>Example inputs\<close>

definition no_credentials :: env where
  "no_credentials =
     \<lparr> DEEPSEEK_API_KEY = [], GITHUB_TOKEN = [], VERCEL_TOKEN = [], VERCEL_PROJECT_ID = [] \<rparr>"

definition github_only :: env where
  "github_only =
     \<lparr> DEEPSEEK_API_KEY = [], GITHUB_TOKEN = lit ''ghp_token'', VERCEL_TOKEN = [],
       VERCEL_PROJECT_ID = [] \<rparr>"

definition deepseek_only :: env where
  "deepseek_only =
     \<lparr> DEEPSEEK_API_KEY = lit ''sk-key'', GITHUB_TOKEN = [], VERCEL_TOKEN = [],
       VERCEL_PROJECT_ID = [] \<rparr>"

definition unreachable :: js_error where
  "unreachable = Error (lit ''connect ECONNREFUSED'') None"

text \<open>
  A world whose clock stands at the epoch, in the time zone of Greenwich, and where every
  collaborator is unreachable.
\<close>

definition epoch_world :: world where
  "epoch_world =
     \<lparr> now = (\<lambda>s. 0),
       toISOString = (\<lambda>t. lit ''1970-01-01T00:00:00.000Z''),
       getFullYear = (\<lambda>t. 1970),
       deepseek = (\<lambda>r. Rejected unreachable),
       deepseek_website = (\<lambda>r. Rejected unreachable),
       getAuthenticated = Inl unreachable,
       createForAuthenticatedUser = (\<lambda>r. Inl unreachable),
       createOrUpdateFileContents = (\<lambda>f. Inl unreachable),
       vercel_deployments = (\<lambda>r. Inl unreachable) \<rparr>"

text \<open>The completion endpoint answers with a script and nothing else.\<close>

definition script_only :: world where
  "script_only =
     epoch_world \<lparr> deepseek := (\<lambda>r. Parsed (Obj [(lit ''js'', Str (lit ''x()''))])) \<rparr>"

definition created_repo :: repo_data where
  "created_repo =
     \<lparr> html_url = Str (lit ''https://github.com/octocat/happy-website-0''),
       clone_url = Str (lit ''https://github.com/octocat/happy-website-0.git''),
       owner_login = Str (lit ''octocat''),
       data_name = Str (lit ''happy-website-0''),
       full_name = Str (lit ''octocat/happy-website-0'') \<rparr>"

text \<open>
  The source host answers, and accepts \<open>index.html\<close> only; and the same host refusing
  every file.
\<close>

definition first_file_only :: world where
  "first_file_only =
     epoch_world
       \<lparr> getAuthenticated := Inr (lit ''octocat''),
         createForAuthenticatedUser := (\<lambda>r. Inr created_repo),
         createOrUpdateFileContents :=
           (\<lambda>f. if file_path f = lit ''index.html'' then Inr () else Inl unreachable) \<rparr>"

definition no_file :: world where
  "no_file =
     epoch_world
       \<lparr> getAuthenticated := Inr (lit ''octocat''),
         createForAuthenticatedUser := (\<lambda>r. Inr created_repo) \<rparr>"

definition no_sessions :: sessions where
  "no_sessions = Map.empty"

definition user42 :: jsstring where
  "user42 = lit ''user42''"

definition bakery :: jsval where
  "bakery = Obj [(lit ''name'', Str (lit ''Bakery'')), (lit ''html'', Str (lit ''<h1>Bakery</h1>''))]"

definition numbered :: "nat \<Rightarrow> world \<times> jsval" where
  "numbered i =
     (epoch_world, Obj [(lit ''name'', Str (digits i)), (lit ''html'', Str (lit ''<p>page</p>''))])"

text \<open>What \<open>new_project\<close> makes of the project \<open>numbered i\<close>.\<close>

definition numbered_saved :: "nat \<Rightarrow> saved_project" where
  "numbered_saved i =
     \<lparr> sp_id = lit ''project_0'', sp_name = Str (digits i),
       sp_preview = lit ''<p>page</p>...'',
       sp_timestamp = lit ''1970-01-01T00:00:00.000Z'',
       sp_code = \<lparr> html = Str (lit ''<p>page</p>''), css = Str [], js = Str [] \<rparr> \<rparr>"

definition twenty_five :: "(world \<times> jsval) list" where
  "twenty_five = map numbered [1..<26]"

section \<open>Basic facts\<close>

lemma lit_Nil: "lit s = [] \<longleftrightarrow> s = []"
  by (simp add: lit_def)

lemma digits_0: "digits 0 = lit ''0''"
  by (simp add: digits.simps lit_def)

lemma digits_1970: "digits 1970 = lit ''1970''"
  by (simp add: digits.simps lit_def)

lemma digits_nonempty: "digits n \<noteq> []"
  by (subst digits.simps) simp

lemma take_append_take: "take n (xs @ take n ys) = take n (xs @ ys)"
  by (simp add: min_def)

lemma epoch_world_simps:
  "now epoch_world s = 0"
  "toISOString epoch_world t = lit ''1970-01-01T00:00:00.000Z''"
  "getFullYear epoch_world t = 1970"
  "deepseek epoch_world q = Rejected unreachable"
  "deepseek_website epoch_world d = Rejected unreachable"
  "getAuthenticated epoch_world = Inl unreachable"
  "createForAuthenticatedUser epoch_world r = Inl unreachable"
  "createOrUpdateFileContents epoch_world f = Inl unreachable"
  "vercel_deployments epoch_world v = Inl unreachable"
  by (simp_all add: epoch_world_def)

lemma script_only_simps:
  "deepseek script_only q = Parsed (Obj [(lit ''js'', Str (lit ''x()''))])"
  "now script_only s = 0"
  "getFullYear script_only t = 1970"
  by (simp_all add: script_only_def epoch_world_def)

lemma first_file_only_simps:
  "now first_file_only s = 0"
  "getAuthenticated first_file_only = Inr (lit ''octocat'')"
  "createForAuthenticatedUser first_file_only r = Inr created_repo"
  "createOrUpdateFileContents first_file_only f =
     (if file_path f = lit ''index.html'' then Inr () else Inl unreachable)"
  by (simp_all add: first_file_only_def epoch_world_def)

lemma no_file_simps:
  "now no_file s = 0"
  "getAuthenticated no_file = Inr (lit ''octocat'')"
  "createForAuthenticatedUser no_file r = Inr created_repo"
  "createOrUpdateFileContents no_file f = Inl unreachable"
  by (simp_all add: no_file_def epoch_world_def)

lemma request_of_shop:
  "request_of (lit ''shop'') (Prim Undefined) =
     Inr \<lparr> user_wants = lit ''shop'', current_html = lit ''None'',
           current_css = lit ''None'', current_js = lit ''None'' \<rparr>"
  by (simp add: request_of_def excerpt_of_def)

section \<open>Properties of the fallback template\<close>

lemma template_html_1_nonempty: "template_html_1 \<noteq> []"
  by (simp add: template_html_1_def lit_Nil)

lemma template_css_nonempty: "template_css \<noteq> []"
  by (simp add: template_css_def lit_Nil)

lemma template_js_nonempty: "template_js \<noteq> []"
  by (simp add: template_js_def lit_Nil)

text \<open>The three fields of the template are non-empty strings, and the markup holds the message.\<close>

lemma template_fields:
  "\<exists>h c j. generateFallbackTemplate w m = \<lparr> html = Str h, css = Str c, js = Str j \<rparr>
     \<and> h \<noteq> [] \<and> c \<noteq> [] \<and> j \<noteq> [] \<and> (\<exists>a b. h = a @ m @ b)"
proof -
  let ?h = "template_html_1 @ m @ template_html_2 @ m @ template_html_3
              @ digits (getFullYear w (now w TemplateYear)) @ template_html_4"
  have "generateFallbackTemplate w m = \<lparr> html = Str ?h, css = Str template_css, js = Str template_js \<rparr>"
    by (simp add: generateFallbackTemplate_def)
  moreover have "?h \<noteq> []"
    using template_html_1_nonempty by simp
  moreover have "\<exists>a b. ?h = a @ m @ b"
    by blast
  ultimately show ?thesis
    using template_css_nonempty template_js_nonempty by blast
qed

text \<open>Two messages that give the same markup, at the same reading of the clock, are equal.\<close>

lemma sandwich:
  assumes "a @ m @ b @ m @ c = a @ m' @ b @ m' @ c"
  shows "m = m'"
proof -
  from assms have "length (a @ m @ b @ m @ c) = length (a @ m' @ b @ m' @ c)"
    by (rule arg_cong)
  then have "length m = length m'"
    by simp
  moreover from assms have "m @ (b @ m @ c) = m' @ (b @ m' @ c)"
    by simp
  ultimately show ?thesis
    using append_eq_append_conv [of m m' "b @ m @ c" "b @ m' @ c"] by blast
qed

lemma generateFallbackTemplate_inj:
  assumes "generateFallbackTemplate w m = generateFallbackTemplate w m'"
  shows "m = m'"
proof -
  from assms have "html (generateFallbackTemplate w m) = html (generateFallbackTemplate w m')"
    by simp
  then have "template_html_1 @ m @ template_html_2 @ m
               @ (template_html_3 @ digits (getFullYear w (now w TemplateYear)) @ template_html_4)
           = template_html_1 @ m' @ template_html_2 @ m'
               @ (template_html_3 @ digits (getFullYear w (now w TemplateYear)) @ template_html_4)"
    by (simp add: generateFallbackTemplate_def)
  then show ?thesis
    by (rule sandwich)
qed

section \<open>Properties of the generator\<close>

lemma from_aiData_Obj:
  "from_aiData w m (Obj kvs) =
     Inr \<lparr> ai_message =
             or_else (case map_of kvs (lit ''message'') of None \<Rightarrow> Undefined | Some v \<Rightarrow> v)
               (Str (lit ''I created a website for you!'')),
           ai_code =
             \<lparr> html = or_else (case map_of kvs (lit ''html'') of None \<Rightarrow> Undefined | Some v \<Rightarrow> v)
                        (html (generateFallbackTemplate w m)),
               css = or_else (case map_of kvs (lit ''css'') of None \<Rightarrow> Undefined | Some v \<Rightarrow> v)
                       (css (generateFallbackTemplate w m)),
               js = or_else (case map_of kvs (lit ''js'') of None \<Rightarrow> Undefined | Some v \<Rightarrow> v)
                      (js (generateFallbackTemplate w m)) \<rparr> \<rparr>"
  by (simp add: from_aiData_def)

lemma from_aiData_Prim:
  "(case from_aiData w m (Prim p) of Inl e \<Rightarrow> generateFallbackResponse w m | Inr r \<Rightarrow> r)
     = (if p = Null \<or> p = Undefined then generateFallbackResponse w m
        else \<lparr> ai_message = Str (lit ''I created a website for you!''),
               ai_code = generateFallbackTemplate w m \<rparr>)"
  by (cases p) (simp_all add: from_aiData_def or_else_def)

text \<open>
  Claim C1. When the key is configured, the call to the completion endpoint succeeds and its
  reply parses, each of the three fields of the returned code is decided on its own: it is
  the field of the parsed reply when that is truthy (in particular a non-empty string),
  and the same field of the fallback template when it is absent or empty. A parsed reply
  that is not an object has none of the fields, and all three come from the template.
\<close>

theorem generateAIResponse_per_field:
  assumes "DEEPSEEK_API_KEY env \<noteq> []"
      and "request_of m cc = Inr req"
      and "deepseek w req = Parsed aiData"
  shows "(\<forall>kvs. aiData = Obj kvs \<longrightarrow>
            html (ai_code (generateAIResponse env w m cc)) =
              or_else (case map_of kvs (lit ''html'') of None \<Rightarrow> Undefined | Some v \<Rightarrow> v)
                      (html (generateFallbackTemplate w m))
          \<and> css (ai_code (generateAIResponse env w m cc)) =
              or_else (case map_of kvs (lit ''css'') of None \<Rightarrow> Undefined | Some v \<Rightarrow> v)
                      (css (generateFallbackTemplate w m))
          \<and> js (ai_code (generateAIResponse env w m cc)) =
              or_else (case map_of kvs (lit ''js'') of None \<Rightarrow> Undefined | Some v \<Rightarrow> v)
                      (js (generateFallbackTemplate w m)))
       \<and> (\<forall>p. aiData = Prim p \<longrightarrow>
            ai_code (generateAIResponse env w m cc) = generateFallbackTemplate w m)"
proof (intro conjI allI impI)
  fix kvs assume "aiData = Obj kvs"
  with assms have r: "generateAIResponse env w m cc =
      (case from_aiData w m (Obj kvs) of Inl e \<Rightarrow> generateFallbackResponse w m | Inr r \<Rightarrow> r)"
    by (simp add: generateAIResponse_def)
  show "html (ai_code (generateAIResponse env w m cc)) =
              or_else (case map_of kvs (lit ''html'') of None \<Rightarrow> Undefined | Some v \<Rightarrow> v)
                      (html (generateFallbackTemplate w m))"
    unfolding r from_aiData_Obj by simp
  show "css (ai_code (generateAIResponse env w m cc)) =
              or_else (case map_of kvs (lit ''css'') of None \<Rightarrow> Undefined | Some v \<Rightarrow> v)
                      (css (generateFallbackTemplate w m))"
    unfolding r from_aiData_Obj by simp
  show "js (ai_code (generateAIResponse env w m cc)) =
              or_else (case map_of kvs (lit ''js'') of None \<Rightarrow> Undefined | Some v \<Rightarrow> v)
                      (js (generateFallbackTemplate w m))"
    unfolding r from_aiData_Obj by simp
next
  fix p assume "aiData = Prim p"
  with assms have r: "generateAIResponse env w m cc =
      (case from_aiData w m (Prim p) of Inl e \<Rightarrow> generateFallbackResponse w m | Inr r \<Rightarrow> r)"
    by (simp add: generateAIResponse_def)
  show "ai_code (generateAIResponse env w m cc) = generateFallbackTemplate w m"
    unfolding r from_aiData_Prim by (simp add: generateFallbackResponse_def)
qed

text \<open>
  A reply that holds only \<open>js\<close>: the script is the model's, markup and styles are the
  template's, the markup with the message \<open>shop\<close> in its title and its heading.
\<close>

theorem generateAIResponse_per_field_witness:
  "ai_code (generateAIResponse deepseek_only script_only (lit ''shop'') (Prim Undefined)) =
     \<lparr> html = Str (template_html_1 @ lit ''shop'' @ template_html_2 @ lit ''shop''
                     @ template_html_3 @ lit ''1970'' @ template_html_4),
       css = Str template_css,
       js = Str (lit ''x()'') \<rparr>"
proof -
  have k: "DEEPSEEK_API_KEY deepseek_only \<noteq> []"
    by (simp add: deepseek_only_def lit_def)
  note t = generateAIResponse_per_field [OF k request_of_shop script_only_simps(1),
      THEN conjunct1, rule_format, OF refl]
  have "html (ai_code (generateAIResponse deepseek_only script_only (lit ''shop'') (Prim Undefined)))
          = Str (template_html_1 @ lit ''shop'' @ template_html_2 @ lit ''shop''
                     @ template_html_3 @ lit ''1970'' @ template_html_4)"
    and "css (ai_code (generateAIResponse deepseek_only script_only (lit ''shop'') (Prim Undefined)))
          = Str template_css"
    and "js (ai_code (generateAIResponse deepseek_only script_only (lit ''shop'') (Prim Undefined)))
          = Str (lit ''x()'')"
    using t
    by (simp_all add: or_else_def generateFallbackTemplate_def script_only_simps digits_1970
          lit_def)
  then show ?thesis
    by (cases "ai_code (generateAIResponse deepseek_only script_only (lit ''shop'')
                 (Prim Undefined))") simp
qed



section \<open>Properties of the chat endpoint\<close>

text \<open>
  Claim C10. When the body of the chat handler throws, the outermost \<open>catch\<close> answers with
  \<open>success\<close> false and the fallback template built from the fixed string
  \<open>'AI generated website'\<close>: its markup holds that string, whatever the message was. The
  fallback of the generator is the template of the message it was given, so for every
  message other than the fixed string it is another code than the one the \<open>catch\<close>
  returns. The only throw of the body is the call of \<open>trim\<close> on a truthy message that is
  not a string.
\<close>

theorem chat_catch_fixed_template:
  assumes "chat_try env w body = Inl error"
  shows "chat env w body =
           \<lparr> chat_status = 200, chat_success = False,
             chat_text = Str (lit ''I created a website for you! Check the preview.''),
             chat_code = Some (generateFallbackTemplate w (lit ''AI generated website'')) \<rparr>
       \<and> truthy (req_message body) \<and> (\<forall>s. req_message body \<noteq> Str s)
       \<and> (\<forall>m. ai_code (generateFallbackResponse w m) = generateFallbackTemplate w m)
       \<and> (\<forall>m. m \<noteq> lit ''AI generated website'' \<longrightarrow>
             chat_code (chat env w body) \<noteq> Some (ai_code (generateFallbackResponse w m)))
       \<and> (\<exists>h c j. chat_code (chat env w body) = Some \<lparr> html = Str h, css = Str c, js = Str j \<rparr>
             \<and> h \<noteq> [] \<and> c \<noteq> [] \<and> j \<noteq> []
             \<and> (\<exists>a b. h = a @ lit ''AI generated website'' @ b))"
proof -
  from assms have r: "chat env w body =
           \<lparr> chat_status = 200, chat_success = False,
             chat_text = Str (lit ''I created a website for you! Check the preview.''),
             chat_code = Some (generateFallbackTemplate w (lit ''AI generated website'')) \<rparr>"
    by (simp add: chat_def)
  from assms have t: "truthy (req_message body) \<and> (\<forall>s. req_message body \<noteq> Str s)"
    by (auto simp: chat_try_def Let_def split: if_splits prim.splits)
  have g: "\<forall>m. ai_code (generateFallbackResponse w m) = generateFallbackTemplate w m"
    by (simp add: generateFallbackResponse_def)
  have d: "\<forall>m. m \<noteq> lit ''AI generated website'' \<longrightarrow>
             chat_code (chat env w body) \<noteq> Some (ai_code (generateFallbackResponse w m))"
    using generateFallbackTemplate_inj [of w "lit ''AI generated website''"]
    by (auto simp: r g)
  have f: "\<exists>h c j. chat_code (chat env w body) = Some \<lparr> html = Str h, css = Str c, js = Str j \<rparr>
             \<and> h \<noteq> [] \<and> c \<noteq> [] \<and> j \<noteq> []
             \<and> (\<exists>a b. h = a @ lit ''AI generated website'' @ b)"
    using template_fields [of w "lit ''AI generated website''"] by (simp add: r)
  from r t g d f show ?thesis by blast
qed

text \<open>
  The message is the number 12345: the title and the heading of the markup returned are
  \<open>AI generated website\<close>, not \<open>12345\<close>.
\<close>

theorem chat_catch_fixed_template_witness:
  "chat no_credentials epoch_world
     \<lparr> req_message = Num (lit ''12345''), req_currentCode = Prim Undefined \<rparr> =
     \<lparr> chat_status = 200, chat_success = False,
       chat_text = Str (lit ''I created a website for you! Check the preview.''),
       chat_code = Some
         \<lparr> html = Str (template_html_1 @ lit ''AI generated website'' @ template_html_2
                         @ lit ''AI generated website'' @ template_html_3 @ lit ''1970''
                         @ template_html_4),
           css = Str template_css, js = Str template_js \<rparr> \<rparr>
   \<and> chat_code (chat no_credentials epoch_world
        \<lparr> req_message = Num (lit ''12345''), req_currentCode = Prim Undefined \<rparr>)
       \<noteq> Some (ai_code (generateFallbackResponse epoch_world (lit ''12345'')))"
proof -
  have t: "chat_try no_credentials epoch_world
             \<lparr> req_message = Num (lit ''12345''), req_currentCode = Prim Undefined \<rparr>
             = Inl TypeError"
    by (simp add: chat_try_def lit_def)
  have n: "lit ''12345'' \<noteq> lit ''AI generated website''"
    by (simp add: lit_def)
  note c = chat_catch_fixed_template [OF t]
  from c have 1: "chat no_credentials epoch_world
     \<lparr> req_message = Num (lit ''12345''), req_currentCode = Prim Undefined \<rparr> =
     \<lparr> chat_status = 200, chat_success = False,
       chat_text = Str (lit ''I created a website for you! Check the preview.''),
       chat_code = Some (generateFallbackTemplate epoch_world (lit ''AI generated website'')) \<rparr>"
    by blast
  from c n have 2: "chat_code (chat no_credentials epoch_world
        \<lparr> req_message = Num (lit ''12345''), req_currentCode = Prim Undefined \<rparr>)
       \<noteq> Some (ai_code (generateFallbackResponse epoch_world (lit ''12345'')))"
    by blast
  from 1 2 show ?thesis
    by (simp add: generateFallbackTemplate_def epoch_world_simps digits_1970)
qed

section \<open>Properties of the deploy endpoint\<close>

text \<open>
  Claim C3, as stated, asks for \<open>success\<close> false when no credential is configured. With
  no token at all and a project that has markup, the handler answers \<open>success\<close> true.
\<close>

theorem deploy_no_credentials_counterexample:
  "dep_success (deploy no_credentials epoch_world bakery) \<noteq> False"
  by (simp add: deploy_def deploy_try_def no_credentials_def bakery_def lit_def Let_def)

text \<open>
  Claim C3, amended. With no source-host token and no deployment token, a deploy request
  whose project is truthy and has truthy markup is answered with \<open>success\<close> true, the mock
  deployment URL \<open>https://happy-website-<now>.vercel.app\<close>, the mock repository URL
  \<open>https://github.com/happy-ai/website-<now>\<close> and a message.
\<close>

theorem deploy_without_credentials:
  assumes "GITHUB_TOKEN env = []" and "VERCEL_TOKEN env = []"
      and "truthy_val project" and "get project (lit ''html'') = Inr h" and "truthy h"
  shows "deploy env w project =
           \<lparr> dep_status = 200, dep_success = True,
             dep_url = lit ''https://happy-website-'' @ digits (now w MockVercelUrl)
                         @ lit ''.vercel.app'',
             dep_github = Str (lit ''https://github.com/happy-ai/website-''
                                 @ digits (now w MockRepoUrl)),
             dep_error = None,
             dep_message = Some (lit ''Website deployed successfully! '' @ [0xD83D, 0xDE80]) \<rparr>"
  using assms by (simp add: deploy_def deploy_try_def Let_def)

text \<open>The bakery project, with no credentials, at the epoch.\<close>

theorem deploy_without_credentials_witness:
  "deploy no_credentials epoch_world bakery =
           \<lparr> dep_status = 200, dep_success = True,
             dep_url = lit ''https://happy-website-0.vercel.app'',
             dep_github = Str (lit ''https://github.com/happy-ai/website-0''),
             dep_error = None,
             dep_message = Some (lit ''Website deployed successfully! '' @ [0xD83D, 0xDE80]) \<rparr>"
proof -
  have a: "GITHUB_TOKEN no_credentials = []" and b: "VERCEL_TOKEN no_credentials = []"
    by (simp_all add: no_credentials_def)
  have c: "truthy_val bakery" by (simp add: bakery_def)
  have d: "get bakery (lit ''html'') = Inr (Str (lit ''<h1>Bakery</h1>''))"
    by (simp add: bakery_def lit_def)
  have e: "truthy (Str (lit ''<h1>Bakery</h1>''))" by (simp add: lit_def)
  from deploy_without_credentials [OF a b c d e, of epoch_world] show ?thesis
    by (simp add: epoch_world_def digits_0 lit_def)
qed

text \<open>
  Claim C4. When the source-host token is present and \<open>createGitHubRepository\<close> throws,
  the handler does not fail: its outer \<open>catch\<close> answers with \<open>success\<close> false, the
  synthetic deployment URL \<open>https://happy-fallback-<now>.vercel.app\<close>, the fixed fallback
  repository URL, the text of the error (or a default) and a fixed explanation.
\<close>

theorem deploy_publish_failure:
  assumes "GITHUB_TOKEN env \<noteq> []"
      and "truthy_val project" and "get project (lit ''html'') = Inr h" and "truthy h"
      and "fst (createGitHubRepository env w project) = Inl error"
  shows "deploy env w project =
           \<lparr> dep_status = 200, dep_success = False,
             dep_url = lit ''https://happy-fallback-'' @ digits (now w FallbackUrl)
                         @ lit ''.vercel.app'',
             dep_github = Str (lit ''https://github.com/happy-ai/fallback-repo''),
             dep_error = Some (message_or (err_message error)
                                 (lit ''Deployment failed, but here are demo URLs'')),
             dep_message =
               Some (lit ''Demo URLs generated. For real deployment, check API keys.'') \<rparr>"
  using assms by (simp add: deploy_def deploy_try_def)

lemma publish_epoch:
  "createGitHubRepository github_only epoch_world bakery =
     (Inl unreachable,
      [Call GetUser,
       Call (CreateRepo (repo_request_of (lit ''happy-website-0'') (Str (lit ''Bakery''))))])"
  by (simp add: createGitHubRepository_def createGitHubRepository_try_def github_only_def
        epoch_world_def bakery_def Let_def digits_0 createGitHubRepository_catch_def
        unreachable_def lit_def)

text \<open>The source host is unreachable.\<close>

theorem deploy_publish_failure_witness:
  "deploy github_only epoch_world bakery =
           \<lparr> dep_status = 200, dep_success = False,
             dep_url = lit ''https://happy-fallback-0.vercel.app'',
             dep_github = Str (lit ''https://github.com/happy-ai/fallback-repo''),
             dep_error = Some (Text (lit ''connect ECONNREFUSED'')),
             dep_message =
               Some (lit ''Demo URLs generated. For real deployment, check API keys.'') \<rparr>"
proof -
  have a: "GITHUB_TOKEN github_only \<noteq> []"
    by (simp add: github_only_def lit_def)
  have c: "truthy_val bakery" by (simp add: bakery_def)
  have d: "get bakery (lit ''html'') = Inr (Str (lit ''<h1>Bakery</h1>''))"
    by (simp add: bakery_def lit_def)
  have e: "truthy (Str (lit ''<h1>Bakery</h1>''))" by (simp add: lit_def)
  have f: "fst (createGitHubRepository github_only epoch_world bakery) = Inl unreachable"
    by (simp add: publish_epoch)
  from deploy_publish_failure [OF a c d e f] show ?thesis
    by (simp add: epoch_world_def digits_0 unreachable_def lit_def)
qed

section \<open>Properties of the publisher\<close>

lemma add_other_files_all: "add_other_files w fs = concat (map (add_file w) fs)"
  by (induction fs) simp_all

lemma repo_files_paths:
  assumes "repo_files w project username repoName = Inr (first, others)"
  shows "file_path first = lit ''index.html''
       \<and> map file_path others = [lit ''style.css'', lit ''script.js'', lit ''README.md'']"
  using assms by (auto simp: repo_files_def split: sum.splits)

text \<open>
  Claim C6. Once the repository exists and the four contents are computed, the outcome of
  publishing is decided by the first file-creation call alone. If the call for
  \<open>index.html\<close> fails, its error leaves \<open>createGitHubRepository\<close> (through the \<open>catch\<close>
  that rethrows) and no further file is sent. If it succeeds, the calls for \<open>style.css\<close>,
  \<open>script.js\<close> and \<open>README.md\<close> are all attempted, in this order and whatever each
  returns; a failing one leaves one line on the console and nothing else, no call undoes
  an earlier one, and the repository reference is returned.
\<close>

theorem createGitHubRepository_first_file:
  assumes "GITHUB_TOKEN env \<noteq> []"
      and "get project (lit ''name'') = Inr n"
      and "createForAuthenticatedUser w
             (repo_request_of (lit ''happy-website-'' @ digits (now w RepoName)) n) = Inr repo"
      and "repo_files w project (getGitHubUsername w)
             (lit ''happy-website-'' @ digits (now w RepoName)) = Inr (first, others)"
  shows "(\<forall>e. createOrUpdateFileContents w first = Inl e \<longrightarrow>
            createGitHubRepository env w project =
              (Inl (createGitHubRepository_catch e),
               [Call GetUser,
                Call (CreateRepo
                        (repo_request_of (lit ''happy-website-'' @ digits (now w RepoName)) n)),
                Call (PutFile first)]))
       \<and> (createOrUpdateFileContents w first = Inr () \<longrightarrow>
            createGitHubRepository env w project =
              (Inr \<lparr> gd_url = html_url repo,
                     gd_repoName = getGitHubUsername w @ lit ''/'' @ lit ''happy-website-''
                                     @ digits (now w RepoName),
                     gd_cloneUrl = clone_url repo \<rparr>,
               [Call GetUser,
                Call (CreateRepo
                        (repo_request_of (lit ''happy-website-'' @ digits (now w RepoName)) n)),
                Call (PutFile first)]
                 @ concat (map (add_file w) others)))
       \<and> (\<forall>f. add_file w f =
              (case createOrUpdateFileContents w f of
                 Inr u \<Rightarrow> [Call (PutFile f)]
               | Inl fileError \<Rightarrow>
                   [Call (PutFile f),
                    ConsoleError ([0x274C] @ lit '' Failed to add '' @ file_path f @ lit '':'')
                      (err_message fileError)]))
       \<and> file_path first = lit ''index.html''
       \<and> map file_path others = [lit ''style.css'', lit ''script.js'', lit ''README.md'']"
proof (intro conjI allI impI)
  fix e assume "createOrUpdateFileContents w first = Inl e"
  with assms show "createGitHubRepository env w project =
              (Inl (createGitHubRepository_catch e),
               [Call GetUser,
                Call (CreateRepo
                        (repo_request_of (lit ''happy-website-'' @ digits (now w RepoName)) n)),
                Call (PutFile first)])"
    by (simp add: createGitHubRepository_def createGitHubRepository_try_def Let_def)
next
  assume "createOrUpdateFileContents w first = Inr ()"
  with assms show "createGitHubRepository env w project =
              (Inr \<lparr> gd_url = html_url repo,
                     gd_repoName = getGitHubUsername w @ lit ''/'' @ lit ''happy-website-''
                                     @ digits (now w RepoName),
                     gd_cloneUrl = clone_url repo \<rparr>,
               [Call GetUser,
                Call (CreateRepo
                        (repo_request_of (lit ''happy-website-'' @ digits (now w RepoName)) n)),
                Call (PutFile first)]
                 @ concat (map (add_file w) others))"
    by (simp add: createGitHubRepository_def createGitHubRepository_try_def Let_def
          add_other_files_all)
next
  fix f show "add_file w f =
              (case createOrUpdateFileContents w f of
                 Inr u \<Rightarrow> [Call (PutFile f)]
               | Inl fileError \<Rightarrow>
                   [Call (PutFile f),
                    ConsoleError ([0x274C] @ lit '' Failed to add '' @ file_path f @ lit '':'')
                      (err_message fileError)])"
    by (simp add: add_file_def)
next
  from repo_files_paths [OF assms(4)]
  show "file_path first = lit ''index.html''"
    and "map file_path others = [lit ''style.css'', lit ''script.js'', lit ''README.md'']"
    by simp_all
qed

lemma bakery_files:
  "getAuthenticated w = Inr (lit ''octocat'') \<Longrightarrow> now w RepoName = 0 \<Longrightarrow>
   repo_files w bakery (getGitHubUsername w) (lit ''happy-website-'' @ digits (now w RepoName)) =
     Inr (\<lparr> file_owner = Str (lit ''octocat''), file_repo = Str (lit ''happy-website-0''),
            file_path = lit ''index.html'',
            file_message = lit ''Add HTML file - Created with Happy AI Builder'',
            file_content = Base64 (lit ''<h1>Bakery</h1>'') \<rparr>,
          [\<lparr> file_owner = Str (lit ''octocat''), file_repo = Str (lit ''happy-website-0''),
             file_path = lit ''style.css'',
             file_message = lit ''Add CSS file - Created with Happy AI Builder'',
             file_content = Base64 template_css \<rparr>,
           \<lparr> file_owner = Str (lit ''octocat''), file_repo = Str (lit ''happy-website-0''),
             file_path = lit ''script.js'',
             file_message = lit ''Add JavaScript file - Created with Happy AI Builder'',
             file_content = Base64 template_js \<rparr>,
           \<lparr> file_owner = Str (lit ''octocat''), file_repo = Str (lit ''happy-website-0''),
             file_path = lit ''README.md'',
             file_message = lit ''Add README file'',
             file_content = Base64 (readme w) \<rparr>])"
  by (simp add: repo_files_def bakery_def getGitHubUsername_def digits_0 or_else_def
        generateFallbackTemplate_def lit_def)

text \<open>
  A host that accepts \<open>index.html\<close> and refuses the three other files, and a host that
  refuses \<open>index.html\<close>.
\<close>

theorem createGitHubRepository_first_file_witness:
  "fst (createGitHubRepository github_only first_file_only bakery) =
     Inr \<lparr> gd_url = Str (lit ''https://github.com/octocat/happy-website-0''),
           gd_repoName = lit ''octocat/happy-website-0'',
           gd_cloneUrl = Str (lit ''https://github.com/octocat/happy-website-0.git'') \<rparr>
   \<and> length (snd (createGitHubRepository github_only first_file_only bakery)) = 9
   \<and> fst (createGitHubRepository github_only no_file bakery) = Inl unreachable
   \<and> length (snd (createGitHubRepository github_only no_file bakery)) = 3"
proof -
  have a: "GITHUB_TOKEN github_only \<noteq> []"
    by (simp add: github_only_def lit_def)
  have n: "get bakery (lit ''name'') = Inr (Str (lit ''Bakery''))"
    by (simp add: bakery_def lit_def)
  have r1: "createForAuthenticatedUser first_file_only
             (repo_request_of (lit ''happy-website-'' @ digits (now first_file_only RepoName))
                (Str (lit ''Bakery''))) = Inr created_repo"
    by (simp add: first_file_only_simps)
  have r2: "createForAuthenticatedUser no_file
             (repo_request_of (lit ''happy-website-'' @ digits (now no_file RepoName))
                (Str (lit ''Bakery''))) = Inr created_repo"
    by (simp add: no_file_simps)
  note f1 = bakery_files [of first_file_only, OF first_file_only_simps(2) first_file_only_simps(1)]
  note f2 = bakery_files [of no_file, OF no_file_simps(2) no_file_simps(1)]
  note t1 = createGitHubRepository_first_file [OF a n r1 f1, THEN conjunct2, THEN conjunct1]
  note t2 = createGitHubRepository_first_file [OF a n r2 f2, THEN conjunct1]
  have p1: "fst (createGitHubRepository github_only first_file_only bakery) =
     Inr \<lparr> gd_url = Str (lit ''https://github.com/octocat/happy-website-0''),
           gd_repoName = lit ''octocat/happy-website-0'',
           gd_cloneUrl = Str (lit ''https://github.com/octocat/happy-website-0.git'') \<rparr>
      \<and> length (snd (createGitHubRepository github_only first_file_only bakery)) = 9"
    using t1
    by (simp add: first_file_only_simps getGitHubUsername_def created_repo_def digits_0
          add_file_def lit_def)
  have p2: "fst (createGitHubRepository github_only no_file bakery) = Inl unreachable
      \<and> length (snd (createGitHubRepository github_only no_file bakery)) = 3"
    using t2
    by (simp add: no_file_simps createGitHubRepository_catch_def unreachable_def)
  from p1 p2 show ?thesis by simp
qed

section \<open>Properties of the session store\<close>

lemma add_project_take: "add_project p ps = take 20 (p # ps)"
  by (simp add: add_project_def)

lemma ensure_session_same:
  "ensure_session w store uid uid =
     Some (case store uid of
             None \<Rightarrow> \<lparr> userId = uid, projects = [], createdAt = now w SessionCreatedAt \<rparr>
           | Some userData \<Rightarrow> userData)"
  by (simp add: ensure_session_def split: option.splits)

lemma ensure_session_other: "k \<noteq> uid \<Longrightarrow> ensure_session w store uid k = store k"
  by (simp add: ensure_session_def split: option.splits)

lemma projects_of_ensure: "projects_of (ensure_session w store uid) k = projects_of store k"
  by (cases "k = uid") (simp_all add: projects_of_def ensure_session_same ensure_session_other
        split: option.splits)

lemma history_result:
  "fst (history w store u) =
     \<lparr> hist_success = True, hist_history = take 10 (projects_of store (Str u)),
       hist_total = length (projects_of store (Str u)) \<rparr>"
  by (simp add: history_def Let_def ensure_session_same projects_of_def split: option.splits)

lemma history_store: "snd (history w store u) = ensure_session w store (Str u)"
  by (simp add: history_def Let_def ensure_session_same)

lemma save_projects:
  assumes "new_project w project = Inr p"
  shows "projects_of (snd (save w store uid project)) uid = take 20 (p # projects_of store uid)"
proof -
  obtain q qs where t: "take 20 (p # projects_of store uid) = q # qs"
    by (cases "take 20 (p # projects_of store uid)") simp_all
  show ?thesis
    using assms t
    by (simp add: save_def Let_def ensure_session_same add_project_take projects_of_def
          split: option.splits)
qed

lemma save_other:
  "k \<noteq> uid \<Longrightarrow> snd (save w store uid project) k = store k"
  by (simp add: save_def Let_def ensure_session_same ensure_session_other
        split: sum.splits list.splits)

lemma save_each_projects:
  assumes "map (\<lambda>(w, p). new_project w p) wps = map Inr es" and "wps \<noteq> []"
  shows "projects_of (save_each store uid wps) uid = take 20 (rev es @ projects_of store uid)"
  using assms
proof (induction wps arbitrary: store es)
  case Nil
  then show ?case by simp
next
  case (Cons a rest)
  obtain w project where a: "a = (w, project)" by (cases a)
  from Cons.prems(1) a obtain e es' where es: "es = e # es'"
    and e: "new_project w project = Inr e"
    and rest: "map (\<lambda>(w, p). new_project w p) rest = map Inr es'"
    by (cases es) auto
  show ?case
  proof (cases "rest = []")
    case True
    with rest have "es' = []" by simp
    with True a es e show ?thesis by (simp add: save_projects)
  next
    case False
    have "projects_of (save_each store uid (a # rest)) uid =
            projects_of (save_each (snd (save w store uid project)) uid rest) uid"
      using a by simp
    also have "\<dots> = take 20 (rev es' @ projects_of (snd (save w store uid project)) uid)"
      by (rule Cons.IH [OF rest False])
    also have "\<dots> = take 20 (rev es' @ take 20 (e # projects_of store uid))"
      by (simp only: save_projects [OF e])
    also have "\<dots> = take 20 (rev es' @ e # projects_of store uid)"
      by (rule take_append_take)
    also have "\<dots> = take 20 (rev es @ projects_of store uid)"
      using es by simp
    finally show ?thesis .
  qed
qed

lemma new_project_numbered:
  "(case numbered i of (w, p) \<Rightarrow> new_project w p) = Inr (numbered_saved i)"
  by (simp add: numbered_def new_project_def numbered_saved_def epoch_world_simps digits_0
        or_else_def digits_nonempty lit_def)

lemma twenty_five_saved:
  "map (\<lambda>(w, p). new_project w p) twenty_five = map Inr (map numbered_saved [1..<26])"
  by (simp add: twenty_five_def new_project_numbered)

lemma length_twenty_five: "length twenty_five = 25"
  by (simp add: twenty_five_def)

text \<open>
  Claim C5, as stated, has a history query with \<open>limit=100\<close> return the twenty stored
  entries. The handler reads no limit and always answers with \<open>projects.slice(0, 10)\<close>:
  after twenty-five saves for one user, the history it returns does not have twenty entries.
\<close>

theorem history_limit_counterexample:
  "length (hist_history (fst (history epoch_world
      (save_each no_sessions (Str user42) twenty_five) user42))) \<noteq> 20"
proof -
  have ne: "twenty_five \<noteq> []"
    using length_twenty_five by auto
  have "projects_of (save_each no_sessions (Str user42) twenty_five) (Str user42)
          = take 20 (rev (map numbered_saved [1..<26]))"
    using save_each_projects [OF twenty_five_saved ne, of no_sessions "Str user42"]
    by (simp add: projects_of_def no_sessions_def)
  then show ?thesis
    by (simp add: history_result)
qed

text \<open>
  Claim C5, amended. After twenty-five saves for one user whose projects can all be read,
  whatever the store held before, the stored list is the twenty most recent entries, most
  recent first (each save inserts at the front, and what lies beyond twenty is dropped from
  the back); a history query returns the ten most recent of them, most recent first, and
  reports a total of twenty.
\<close>

theorem save_capacity:
  assumes "length wps = 25"
      and "map (\<lambda>(w, p). new_project w p) wps = map Inr es"
  shows "projects_of (save_each store (Str u) wps) (Str u) = take 20 (rev es)
       \<and> length (projects_of (save_each store (Str u) wps) (Str u)) = 20
       \<and> fst (history w (save_each store (Str u) wps) u) =
           \<lparr> hist_success = True, hist_history = take 10 (rev es), hist_total = 20 \<rparr>"
proof -
  from assms have l: "length es = 25"
    by (metis length_map)
  from assms(1) have ne: "wps \<noteq> []" by auto
  have p: "projects_of (save_each store (Str u) wps) (Str u) = take 20 (rev es)"
    using save_each_projects [OF assms(2) ne, of store "Str u"] l by simp
  show ?thesis
    using l by (simp add: p history_result min_def)
qed

text \<open>Projects numbered 1 to 25, saved in this order by one user.\<close>

theorem save_capacity_witness:
  "map sp_name (projects_of (save_each no_sessions (Str user42) twenty_five) (Str user42)) =
     map (\<lambda>i. Str (digits i)) [25, 24, 23, 22, 21, 20, 19, 18, 17, 16, 15, 14, 13, 12, 11, 10, 9, 8, 7, 6]
   \<and> map sp_name (hist_history (fst (history epoch_world
        (save_each no_sessions (Str user42) twenty_five) user42))) =
     map (\<lambda>i. Str (digits i)) [25, 24, 23, 22, 21, 20, 19, 18, 17, 16]
   \<and> hist_total (fst (history epoch_world
        (save_each no_sessions (Str user42) twenty_five) user42)) = 20"
proof -
  have r: "rev [Suc 0..<26] = [25, 24, 23, 22, 21, 20, 19, 18, 17, 16, 15, 14, 13, 12, 11, 10,
                           9, 8, 7, 6, 5, 4, 3, 2, Suc 0]"
    by (simp add: upt_rec)
  from save_capacity [OF length_twenty_five twenty_five_saved, of no_sessions user42 epoch_world]
  show ?thesis
    by (simp add: rev_map r numbered_saved_def)
qed

lemma serve_keeps:
  assumes "\<forall>p. r \<noteq> Save (Str u) p"
  shows "projects_of (serve w store r) (Str u) = projects_of store (Str u)"
proof (cases r)
  case (History u')
  then show ?thesis by (simp add: history_store projects_of_ensure)
next
  case (Save uid project)
  with assms have "Str u \<noteq> uid" by auto
  with Save show ?thesis by (simp add: projects_of_def save_other)
qed

lemma serve_all_keeps:
  assumes "\<forall>(w, r) \<in> set rs. \<forall>p. r \<noteq> Save (Str u) p"
  shows "projects_of (serve_all store rs) (Str u) = projects_of store (Str u)"
  using assms
proof (induction rs arbitrary: store)
  case Nil
  then show ?case by simp
next
  case (Cons a rs)
  obtain w r where a: "a = (w, r)" by (cases a)
  with Cons.prems have r: "\<forall>p. r \<noteq> Save (Str u) p"
    and rs: "\<forall>(w, r) \<in> set rs. \<forall>p. r \<noteq> Save (Str u) p"
    by auto
  from Cons.IH [OF rs, of "serve w store r"] serve_keeps [OF r, of w store] a
  show ?case by simp
qed

text \<open>
  Claim C8. Two history queries for a user, with any run of history and save requests in
  between that holds no save for that user, return the same response: the same entries in
  the same order, and the same total.
\<close>

theorem history_idempotent:
  assumes "\<forall>(w, r) \<in> set rs. \<forall>p. r \<noteq> Save (Str u) p"
  shows "fst (history w2 (serve_all (snd (history w1 store u)) rs) u) = fst (history w1 store u)"
  using serve_all_keeps [OF assms, of "snd (history w1 store u)"]
  by (simp add: history_result history_store projects_of_ensure)

text \<open>Between the two queries, another user asks for a history and saves a project.\<close>

theorem history_idempotent_witness:
  "fst (history epoch_world
          (serve_all (snd (history epoch_world
                             (save_each no_sessions (Str user42) twenty_five) user42))
             [(epoch_world, History (lit ''alice'')),
              (epoch_world, Save (Str (lit ''alice'')) bakery)]) user42)
   = fst (history epoch_world (save_each no_sessions (Str user42) twenty_five) user42)"
proof -
  have "\<forall>(w, r) \<in> set [(epoch_world, History (lit ''alice'')),
                          (epoch_world, Save (Str (lit ''alice'')) bakery)].
          \<forall>p. r \<noteq> Save (Str user42) p"
    by (simp add: user42_def lit_def)
  from history_idempotent [OF this] show ?thesis .
qed

text \<open>
  Claim C9. A history query for a user the store does not know writes to the store: it adds
  the session \<open>{userId, projects: [], createdAt}\<close> under that key, so the key set grows by
  this key, and every other entry is left as it was.
\<close>

theorem history_creates_session:
  assumes "store (Str u) = None"
  shows "snd (history w store u) =
           store(Str u \<mapsto> \<lparr> userId = Str u, projects = [],
                               createdAt = now w SessionCreatedAt \<rparr>)
       \<and> dom (snd (history w store u)) = insert (Str u) (dom store)
       \<and> Str u \<notin> dom store
       \<and> (\<forall>k. k \<noteq> Str u \<longrightarrow> snd (history w store u) k = store k)"
  using assms by (auto simp: history_store ensure_session_def)

text \<open>The first query ever, at the epoch.\<close>

theorem history_creates_session_witness:
  "snd (history epoch_world no_sessions user42) (Str user42) =
     Some \<lparr> userId = Str user42, projects = [], createdAt = 0 \<rparr>
   \<and> dom (snd (history epoch_world no_sessions user42)) = {Str user42}"
proof -
  have "no_sessions (Str user42) = None"
    by (simp add: no_sessions_def)
  from history_creates_session [where store = no_sessions and u = user42 and w = epoch_world,
      OF this]
  show ?thesis
    by (simp add: epoch_world_simps no_sessions_def)
qed

section \<open>The two minimum lengths\<close>

text \<open>
  Claim C7. The chat handler rejects, with status 400 and its own validation text, every
  string message whose trimmed length is below 3, and accepts every other string message;
  the website factory rejects every description shorter than 10 with status 400 and its own
  text, before any outbound call and without touching the agents, and goes on to the
  completion endpoint for every longer one. So the two thresholds are 3 and 10, and the
  message \<open>'hi'\<close> with \<open>null\<close> as current code gets the chat validation response, whose
  text is not the factory's.
\<close>

theorem chat_minimum_length:
  "(\<forall>s. length (trim s) < 3 \<longrightarrow>
      chat env w \<lparr> req_message = Str s, req_currentCode = cc \<rparr> = chat_invalid)
   \<and> (\<forall>s. 3 \<le> length (trim s) \<longrightarrow>
      chat_status (chat env w \<lparr> req_message = Str s, req_currentCode = cc \<rparr>) = 200
      \<and> chat_success (chat env w \<lparr> req_message = Str s, req_currentCode = cc \<rparr>))
   \<and> (\<forall>d. length d < 10 \<longrightarrow>
      generate_website w ags (Str d) agentId =
        (generate_failed 400 (Text (lit ''Please provide detailed description'')), ags, []))
   \<and> (\<forall>d. 10 \<le> length d \<longrightarrow>
      gen_status (fst (generate_website w ags (Str d) agentId)) \<noteq> 400
      \<and> snd (snd (generate_website w ags (Str d) agentId)) \<noteq> [])
   \<and> chat env w \<lparr> req_message = Str (lit ''hi''), req_currentCode = Prim Null \<rparr> = chat_invalid
   \<and> chat_status chat_invalid = 400 \<and> \<not> chat_success chat_invalid
   \<and> chat_code chat_invalid = None
   \<and> chat_text chat_invalid = Str (lit ''Please enter a valid message (min 3 characters)'')
   \<and> chat_text chat_invalid \<noteq> Str (lit ''Please provide detailed description'')"
proof (intro conjI allI impI)
  fix s :: jsstring assume "length (trim s) < 3"
  then show "chat env w \<lparr> req_message = Str s, req_currentCode = cc \<rparr> = chat_invalid"
    by (simp add: chat_def chat_try_def)
next
  fix s :: jsstring assume a: "3 \<le> length (trim s)"
  then have "s \<noteq> []" by (auto simp: trim_def)
  with a show "chat_status (chat env w \<lparr> req_message = Str s, req_currentCode = cc \<rparr>) = 200"
    and "chat_success (chat env w \<lparr> req_message = Str s, req_currentCode = cc \<rparr>)"
    by (simp_all add: chat_def chat_try_def Let_def)
next
  fix d :: jsstring assume "length d < 10"
  then show "generate_website w ags (Str d) agentId =
        (generate_failed 400 (Text (lit ''Please provide detailed description'')), ags, [])"
    by (simp add: generate_website_def too_short_def)
next
  fix d :: jsstring assume a: "10 \<le> length d"
  then have n: "\<not> too_short (Str d)" by (auto simp: too_short_def)
  obtain r c where g: "generateWebsiteCode w (Str d) = (r, c)" by (cases "generateWebsiteCode w (Str d)")
  then have c: "c \<noteq> []"
    by (auto simp: generateWebsiteCode_def Let_def split: ai_outcome.splits sum.splits)
  from n g c show "gen_status (fst (generate_website w ags (Str d) agentId)) \<noteq> 400"
    by (auto simp: generate_website_def generate_failed_def split: sum.splits prod.splits)
  from n g c show "snd (snd (generate_website w ags (Str d) agentId)) \<noteq> []"
    by (auto simp: generate_website_def split: sum.splits prod.splits)
next
  show "chat env w \<lparr> req_message = Str (lit ''hi''), req_currentCode = Prim Null \<rparr> = chat_invalid"
    by (simp add: chat_def chat_try_def trim_def lit_def isWhiteSpace_def)
qed (simp_all add: chat_invalid_def lit_def)

text \<open>
  \<open>' hi '\<close> is rejected by the chat handler; \<open>'a shop'\<close> is accepted by it and rejected by
  the factory.
\<close>

theorem chat_minimum_length_witness:
  "chat no_credentials epoch_world
     \<lparr> req_message = Str (lit '' hi ''), req_currentCode = Prim Undefined \<rparr> = chat_invalid
   \<and> chat_success (chat no_credentials epoch_world
     \<lparr> req_message = Str (lit ''a shop''), req_currentCode = Prim Undefined \<rparr>)
   \<and> generate_website epoch_world Map.empty (Str (lit ''a shop'')) (Str (lit ''agent7'')) =
        (generate_failed 400 (Text (lit ''Please provide detailed description'')), Map.empty, [])"
proof -
  have a: "length (trim (lit '' hi '')) < 3"
    by (simp add: trim_def lit_def isWhiteSpace_def)
  have b: "3 \<le> length (trim (lit ''a shop''))"
    by (simp add: trim_def lit_def isWhiteSpace_def)
  have c: "length (lit ''a shop'') < 10"
    by (simp add: lit_def)
  note t = chat_minimum_length [of no_credentials epoch_world "Prim Undefined"
             Map.empty "Str (lit ''agent7'')"]
  from t a have 1: "chat no_credentials epoch_world
     \<lparr> req_message = Str (lit '' hi ''), req_currentCode = Prim Undefined \<rparr> = chat_invalid"
    by blast
  from t b have 2: "chat_success (chat no_credentials epoch_world
     \<lparr> req_message = Str (lit ''a shop''), req_currentCode = Prim Undefined \<rparr>)"
    by blast
  from t c have 3: "generate_website epoch_world Map.empty (Str (lit ''a shop'')) (Str (lit ''agent7'')) =
        (generate_failed 400 (Text (lit ''Please provide detailed description'')), Map.empty, [])"
    by blast
  from 1 2 3 show ?thesis by simp
qed

end
